theory Spec2Isabelle
  imports Complex_Main "HOL-Library.Sublist"
begin

section \<open>Stripe payment failure monitor: the request handlers of index.js\<close>

text \<open>
  The module keeps one piece of state, the array \<^verbatim>\<open>recentLogs\<close>, and talks to three
  collaborators: the clock, the Stripe client and the Gmail client. The model threads a
  state record through every function and takes the collaborators, the configuration
  and three functions of the JavaScript engine as fields of an environment record, so
  that every theorem holds for all of their behaviours. A request is handled from its
  start to its response; the interleaving of two requests at an \<^verbatim>\<open>await\<close> is not
  modelled.
\<close>

subsection \<open>JavaScript values\<close>

text \<open>
  The values are those that \<^verbatim>\<open>JSON.parse\<close> builds, and \<^verbatim>\<open>undefined\<close>. An object is the
  list of its own properties, and the first binding of a key is its value. A number is
  given by the integer numeral of the JSON text (amounts are minor units and
  \<^verbatim>\<open>created\<close> is in seconds), and its value is the double nearest to the numeral.
  Strings are sequences of bytes, which for ASCII text are the code units of the
  source's strings.
\<close>

datatype jsval =
    JUndefined
  | JNull
  | JBool bool
  | JNum int
  | JStr string
  | JArr "jsval list"
  | JObj "(string \<times> jsval) list"

text \<open>
  The value of a number and the result of an arithmetic expression: a finite double,
  \<^verbatim>\<open>NaN\<close> or an infinity.
\<close>

datatype jsnum = Num rat | NaN | PosInf | NegInf

text \<open>
  What the source throws and catches: an error object, of which every catch block of
  the source reads only the \<^verbatim>\<open>message\<close>. \<^verbatim>\<open>TypeError\<close> is raised by the engine,
  \<^verbatim>\<open>ApiError\<close> by a collaborator that fails.
\<close>

datatype js_error = TypeError string | ApiError string

fun err_message :: "js_error \<Rightarrow> string" where
  "err_message (TypeError m) = m"
| "err_message (ApiError m) = m"

definition and_then :: "js_error + 'a \<Rightarrow> ('a \<Rightarrow> js_error + 'b) \<Rightarrow> js_error + 'b" where
  "and_then r f = (case r of Inl e \<Rightarrow> Inl e | Inr x \<Rightarrow> f x)"

fun truthy :: "jsval \<Rightarrow> bool" where
  "truthy JUndefined = False"
| "truthy JNull = False"
| "truthy (JBool b) = b"
| "truthy (JNum n) = (n \<noteq> 0)"
| "truthy (JStr s) = (s \<noteq> [])"
| "truthy (JArr xs) = True"
| "truthy (JObj kvs) = True"

fun nullish :: "jsval \<Rightarrow> bool" where
  "nullish JUndefined = True"
| "nullish JNull = True"
| "nullish v = False"

text \<open>\<^verbatim>\<open>a || b\<close>: the right operand is evaluated only when the left one is falsy.\<close>

definition or_else :: "jsval \<Rightarrow> js_error + jsval \<Rightarrow> js_error + jsval" where
  "or_else a b = (if truthy a then Inr a else b)"

definition cannot_read :: "string \<Rightarrow> string \<Rightarrow> string" where
  "cannot_read what p =
     ''Cannot read properties of '' @ what @ '' (reading '' @ [CHR 0x27] @ p @ [CHR 0x27] @ '')''"

text \<open>
  \<^verbatim>\<open>v.p\<close> for a property name \<open>p\<close>. Reading a property of \<^verbatim>\<open>undefined\<close> or \<^verbatim>\<open>null\<close>
  throws. The names that the source reads (\<^verbatim>\<open>type\<close>, \<^verbatim>\<open>data\<close>, \<^verbatim>\<open>object\<close>, \<^verbatim>\<open>id\<close>,
  \<^verbatim>\<open>amount\<close>, \<^verbatim>\<open>code\<close>, \<^verbatim>\<open>name\<close>, ...) are on no prototype, so an object gives its own
  property, \<^verbatim>\<open>undefined\<close> when it has none of that name, and every other value gives
  \<^verbatim>\<open>undefined\<close>.
\<close>

definition own_prop :: "(string \<times> jsval) list \<Rightarrow> string \<Rightarrow> jsval" where
  "own_prop kvs p = (case map_of kvs p of None \<Rightarrow> JUndefined | Some v \<Rightarrow> v)"

fun get_prop :: "jsval \<Rightarrow> string \<Rightarrow> js_error + jsval" where
  "get_prop JUndefined p = Inl (TypeError (cannot_read ''undefined'' p))"
| "get_prop JNull p = Inl (TypeError (cannot_read ''null'' p))"
| "get_prop (JObj kvs) p = Inr (own_prop kvs p)"
| "get_prop v p = Inr JUndefined"

text \<open>
  \<^verbatim>\<open>v[0]\<close>: the first element of an array, the first character of a string, the
  property \<^verbatim>\<open>0\<close> of an object.
\<close>

fun get_index0 :: "jsval \<Rightarrow> js_error + jsval" where
  "get_index0 JUndefined = Inl (TypeError (cannot_read ''undefined'' ''0''))"
| "get_index0 JNull = Inl (TypeError (cannot_read ''null'' ''0''))"
| "get_index0 (JObj kvs) = Inr (own_prop kvs ''0'')"
| "get_index0 (JArr xs) = Inr (case xs of [] \<Rightarrow> JUndefined | x # _ \<Rightarrow> x)"
| "get_index0 (JStr s) = Inr (case s of [] \<Rightarrow> JUndefined | c # _ \<Rightarrow> JStr [c])"
| "get_index0 v = Inr JUndefined"

text \<open>\<^verbatim>\<open>v?.p\<close> and \<^verbatim>\<open>v?.[0]\<close>: \<^verbatim>\<open>undefined\<close> when \<open>v\<close> is \<^verbatim>\<open>undefined\<close> or \<^verbatim>\<open>null\<close>.\<close>

definition opt_prop :: "jsval \<Rightarrow> string \<Rightarrow> js_error + jsval" where
  "opt_prop v p = (if nullish v then Inr JUndefined else get_prop v p)"

definition opt_index0 :: "jsval \<Rightarrow> js_error + jsval" where
  "opt_index0 v = (if nullish v then Inr JUndefined else get_index0 v)"

subsection \<open>The environment\<close>

text \<open>
  \<^verbatim>\<open>now\<close> is the result of \<^verbatim>\<open>new Date().toISOString()\<close> at the n-th reading of the
  clock. \<^verbatim>\<open>StringToNumber\<close> is the engine's conversion of a string to a number,
  \<^verbatim>\<open>NumberToString\<close> its printing of a number that is not an integer below \<open>2^53\<close>
  (the shortest digits that give the double back, in exponent notation from \<open>10^21\<close>
  on), \<^verbatim>\<open>UpperCase\<close> is \<^verbatim>\<open>String.prototype.toUpperCase\<close> on a string that has a
  character outside ASCII, where it follows the Unicode case mappings, and
  \<^verbatim>\<open>toLocaleString\<close> the printing of the date that \<^verbatim>\<open>new Date(ms)\<close> builds, which
  depends on the locale and the time zone of the host.
  \<^verbatim>\<open>constructEvent\<close> is \<^verbatim>\<open>stripeClient.webhooks.constructEvent\<close> applied to the raw
  body, the signature header and the webhook secret; \<^verbatim>\<open>customers_retrieve\<close> is
  \<^verbatim>\<open>stripeClient.customers.retrieve\<close>; \<^verbatim>\<open>gmail_send\<close> is \<^verbatim>\<open>gmail.users.messages.send\<close>
  applied to the raw message, at the n-th submission, and gives the error if it rejects.
  The remaining fields are the variables of \<^verbatim>\<open>process.env\<close>, \<open>None\<close> when unset.
\<close>

record env =
  now :: "nat \<Rightarrow> string"
  StringToNumber :: "string \<Rightarrow> jsnum"
  NumberToString :: "rat \<Rightarrow> string"
  UpperCase :: "string \<Rightarrow> string"
  toLocaleString :: "jsnum \<Rightarrow> string"
  constructEvent :: "string \<Rightarrow> string option \<Rightarrow> string option \<Rightarrow> js_error + jsval"
  customers_retrieve :: "jsval \<Rightarrow> js_error + jsval"
  gmail_send :: "nat \<Rightarrow> string \<Rightarrow> js_error option"
  STRIPE_SECRET_KEY :: "string option"
  STRIPE_WEBHOOK_SECRET :: "string option"
  GMAIL_CLIENT_ID :: "string option"
  GMAIL_CLIENT_SECRET :: "string option"
  GMAIL_REFRESH_TOKEN :: "string option"
  ALERT_EMAIL_var :: "string option"

text \<open>\<^verbatim>\<open>!!v\<close> for a variable of the environment: set, and not to the empty string.\<close>

definition is_set :: "string option \<Rightarrow> bool" where
  "is_set v = (case v of None \<Rightarrow> False | Some s \<Rightarrow> s \<noteq> [])"

definition ALERT_EMAIL :: "env \<Rightarrow> string" where
  "ALERT_EMAIL env =
     (if is_set (ALERT_EMAIL_var env) then the (ALERT_EMAIL_var env) else ''admin@example.com'')"

subsection \<open>Double arithmetic\<close>

text \<open>
  The numbers of the engine are the IEEE 754 doubles. A finite double is held as the
  rational it stands for, and an operation computes the exact result and rounds it to
  the nearest double, a tie going to the double whose last bit is zero. \<open>ilog2\<close> is the
  position of the leading bit of a positive integer, and \<open>exponent x\<close> the integer
  \<open>e\<close> with \<open>2^e \<le> \<bar>x\<bar> < 2^(e+1)\<close>, for a nonzero \<open>x\<close>.
\<close>

function ilog2 :: "int \<Rightarrow> int" where
  "ilog2 n = (if n < 2 then 0 else 1 + ilog2 (n div 2))"
  by pat_completeness auto
termination
  by (relation "measure nat") auto

declare ilog2.simps [simp del]

definition exponent :: "rat \<Rightarrow> int" where
  "exponent x =
     (let (a, b) = quotient_of \<bar>x\<bar>;
          k = ilog2 a - ilog2 b
      in if 2 powi k \<le> \<bar>x\<bar> then k else k - 1)"

text \<open>The nearest integer to a rational that is not negative, a tie going to the even one.\<close>

definition round_half_even :: "rat \<Rightarrow> int" where
  "round_half_even q =
     (let f = \<lfloor>q\<rfloor>; d = q - of_int f
      in if d < 1 / 2 then f
         else if 1 / 2 < d then f + 1
         else if even f then f else f + 1)"

text \<open>
  Rounding to a double: the spacing of the doubles around \<open>x\<close> is \<open>2^(e-52)\<close>, where \<open>e\<close>
  is the exponent of \<open>x\<close> and at least \<open>-1022\<close>; \<open>x\<close> is rounded to a multiple of the
  spacing, and a result of \<open>2^1024\<close> or more is an infinity. The sign of a zero is not
  kept: no operation of the source tells the two zeros apart.
\<close>

definition round_double :: "rat \<Rightarrow> jsnum" where
  "round_double x =
     (if x = 0 then Num 0
      else (let e = max (exponent x) (- 1022);
                ulp = 2 powi (e - 52);
                r = of_int (round_half_even (\<bar>x\<bar> / ulp)) * ulp
            in if 2 powi 1024 \<le> r then (if x < 0 then NegInf else PosInf)
               else Num (if x < 0 then - r else r)))"

subsection \<open>Conversions\<close>

definition digit :: "int \<Rightarrow> char" where
  "digit d = char_of (48 + d)"

text \<open>The decimal digits of an integer that is not negative.\<close>

function decimal :: "int \<Rightarrow> string" where
  "decimal n = (if n < 10 then [digit n] else decimal (n div 10) @ [digit (n mod 10)])"
  by pat_completeness auto
termination
  by (relation "measure nat") auto

declare decimal.simps [simp del]

text \<open>The decimal digits of an integer.\<close>

definition show_int :: "int \<Rightarrow> string" where
  "show_int i = (if i < 0 then ''-'' @ decimal (- i) else decimal i)"

text \<open>
  \<^verbatim>\<open>ToString\<close> of a number: an integer below \<open>2^53\<close> prints as its digits, every other
  finite number as the engine prints it.
\<close>

fun number_string :: "env \<Rightarrow> jsnum \<Rightarrow> string" where
  "number_string env NaN = ''NaN''"
| "number_string env PosInf = ''Infinity''"
| "number_string env NegInf = ''-Infinity''"
| "number_string env (Num x) =
     (if of_int \<lfloor>x\<rfloor> = x \<and> \<bar>x\<bar> < 2 ^ 53 then show_int \<lfloor>x\<rfloor> else NumberToString env x)"

definition convert_error :: js_error where
  "convert_error = TypeError ''Cannot convert object to primitive value''"

text \<open>
  \<^verbatim>\<open>ToString\<close>, as a template literal applies it. An array is joined with commas, an
  element that is \<^verbatim>\<open>undefined\<close> or \<^verbatim>\<open>null\<close> giving the empty string. An object prints
  as \<^verbatim>\<open>[object Object]\<close>, unless it has a property \<^verbatim>\<open>toString\<close> of its own: a value
  built from JSON is not callable, so the conversion finds no method that returns a
  primitive and throws.
\<close>

fun to_str :: "env \<Rightarrow> jsval \<Rightarrow> js_error + string"
  and join_elems :: "env \<Rightarrow> jsval list \<Rightarrow> js_error + string" where
  "to_str env JUndefined = Inr ''undefined''"
| "to_str env JNull = Inr ''null''"
| "to_str env (JBool b) = Inr (if b then ''true'' else ''false'')"
| "to_str env (JNum n) = Inr (number_string env (round_double (of_int n)))"
| "to_str env (JStr s) = Inr s"
| "to_str env (JArr xs) = join_elems env xs"
| "to_str env (JObj kvs) =
     (if map_of kvs ''toString'' \<noteq> None then Inl convert_error else Inr ''[object Object]'')"
| "join_elems env [] = Inr []"
| "join_elems env (x # xs) =
     (case (if nullish x then Inr [] else to_str env x) of
        Inl e \<Rightarrow> Inl e
      | Inr a \<Rightarrow>
          (if xs = [] then Inr a
           else (case join_elems env xs of Inl e \<Rightarrow> Inl e | Inr b \<Rightarrow> Inr (a @ '','' @ b))))"

text \<open>
  \<^verbatim>\<open>ToNumber\<close>, as \<^verbatim>\<open>/\<close> and \<^verbatim>\<open>*\<close> apply it to an operand. The value of a number is
  the double nearest to its numeral. An array or an object is first converted to a
  string, as above.
\<close>

fun to_number :: "env \<Rightarrow> jsval \<Rightarrow> js_error + jsnum" where
  "to_number env JUndefined = Inr NaN"
| "to_number env JNull = Inr (Num 0)"
| "to_number env (JBool b) = Inr (Num (if b then 1 else 0))"
| "to_number env (JNum n) = Inr (round_double (of_int n))"
| "to_number env (JStr s) = Inr (StringToNumber env s)"
| "to_number env (JArr xs) = and_then (join_elems env xs) (\<lambda>s. Inr (StringToNumber env s))"
| "to_number env (JObj kvs) =
     and_then (to_str env (JObj kvs)) (\<lambda>s. Inr (StringToNumber env s))"

text \<open>\<^verbatim>\<open>x / 100\<close> and \<^verbatim>\<open>x * 1000\<close> in double arithmetic.\<close>

fun div100 :: "jsnum \<Rightarrow> jsnum" where
  "div100 (Num x) = round_double (x / 100)"
| "div100 v = v"

fun times1000 :: "jsnum \<Rightarrow> jsnum" where
  "times1000 (Num x) = round_double (x * 1000)"
| "times1000 v = v"

text \<open>
  \<^verbatim>\<open>Number.prototype.toFixed(2)\<close>: a value that is not finite, or of magnitude \<open>10^21\<close>
  or more, is printed as \<^verbatim>\<open>ToString\<close> prints it; otherwise the sign is set aside, \<open>n\<close>
  is the integer for which \<open>n / 100\<close> is closest to the double, the larger one of two,
  and the digits of \<open>n\<close> are printed with a point before the last two.
\<close>

fun toFixed2 :: "env \<Rightarrow> jsnum \<Rightarrow> string" where
  "toFixed2 env (Num x) =
     (if \<bar>x\<bar> \<ge> 10 ^ 21 then number_string env (Num x)
      else (let n = \<lfloor>\<bar>x\<bar> * 100 + 1 / 2\<rfloor>
            in (if x < 0 then ''-'' else '''') @ decimal (n div 100) @ ''.'' @
               [digit (n mod 100 div 10), digit (n mod 10)]))"
| "toFixed2 env v = number_string env v"

definition upper_char :: "char \<Rightarrow> char" where
  "upper_char c =
     (let n = (of_char c :: nat) in if 97 \<le> n \<and> n \<le> 122 then char_of (n - 32) else c)"

text \<open>
  \<^verbatim>\<open>String.prototype.toUpperCase\<close>: in a string of ASCII characters the letters \<^verbatim>\<open>a\<close>
  to \<^verbatim>\<open>z\<close> are replaced and nothing else; any other string is left to the engine.
\<close>

definition toUpperCase :: "env \<Rightarrow> string \<Rightarrow> string" where
  "toUpperCase env s =
     (if list_all (\<lambda>c. (of_char c :: nat) < 128) s then map upper_char s else UpperCase env s)"

definition is_space :: "char \<Rightarrow> bool" where
  "is_space c = (of_char c \<in> {9, 10, 11, 12, 13, 32 :: nat})"

text \<open>
  \<^verbatim>\<open>String.prototype.trim\<close>, on the ASCII white space. The source trims one text, the
  body of the alert, which inside its margins of line feeds and spaces begins and ends
  with a letter.
\<close>

definition trim :: "string \<Rightarrow> string" where
  "trim s = rev (dropWhile is_space (rev (dropWhile is_space s)))"

subsection \<open>The activity log\<close>

record log_entry =
  timestamp :: string
  level :: string
  message :: string

text \<open>The object that the normalizer builds and \<^verbatim>\<open>sendEmailAlert\<close> receives.\<close>

record payment_data =
  payment_intent_id :: jsval
  amount :: jsval
  currency :: jsval
  failure_code :: jsval
  failure_message :: jsval
  payment_method_type :: jsval
  created :: jsval
  customer_name :: jsval
  customer_email :: jsval

text \<open>
  \<^verbatim>\<open>recentLogs\<close> is the array of the source and \<^verbatim>\<open>console\<close> the lines printed by
  \<^verbatim>\<open>console.log\<close>. \<^verbatim>\<open>ticks\<close> counts the readings of the clock. \<^verbatim>\<open>alerts\<close> lists the
  arguments of the calls of \<^verbatim>\<open>sendEmailAlert\<close>, \<^verbatim>\<open>outbox\<close> the raw messages handed to
  \<^verbatim>\<open>gmail.users.messages.send\<close> and \<^verbatim>\<open>lookups\<close> the arguments of the calls of
  \<^verbatim>\<open>stripeClient.customers.retrieve\<close>, each in the order of the calls. The last three
  are traces of the calls: the source has no such variables, and nothing in the model
  reads them but the index of the next submission.
\<close>

record state =
  recentLogs :: "log_entry list"
  console :: "string list"
  ticks :: nat
  alerts :: "payment_data list"
  outbox :: "string list"
  lookups :: "jsval list"

text \<open>The state in which the module starts.\<close>

definition init_state :: state where
  "init_state =
     \<lparr>recentLogs = [], console = [], ticks = 0, alerts = [], outbox = [], lookups = []\<rparr>"

text \<open>
  \<^verbatim>\<open>log(message, level)\<close>: the entry goes to the front with \<^verbatim>\<open>unshift\<close>, and one entry is
  popped from the end when the array has grown beyond 100.
\<close>

definition log :: "env \<Rightarrow> string \<Rightarrow> string \<Rightarrow> state \<Rightarrow> state" where
  "log env msg lvl st =
     (let ts = now env (ticks st);
          logEntry = \<lparr>timestamp = ts, level = lvl, message = msg\<rparr>;
          line = ''['' @ ts @ ''] '' @ toUpperCase env lvl @ '': '' @ msg;
          logs = logEntry # recentLogs st
      in st\<lparr>ticks := Suc (ticks st),
            console := console st @ [line],
            recentLogs := (if length logs > 100 then butlast logs else logs)\<rparr>)"

text \<open>A run of calls of \<^verbatim>\<open>log\<close>, each with its message and its level.\<close>

definition log_all :: "env \<Rightarrow> (string \<times> string) list \<Rightarrow> state \<Rightarrow> state" where
  "log_all env calls st = fold (\<lambda>(m, l) s. log env m l s) calls st"

text \<open>The entry that the call number \<open>i\<close> of a run creates, the run starting in \<open>st\<close>.\<close>

definition entry_of :: "env \<Rightarrow> state \<Rightarrow> (string \<times> string) list \<Rightarrow> nat \<Rightarrow> log_entry" where
  "entry_of env st calls i =
     \<lparr>timestamp = now env (ticks st + i), level = snd (calls ! i), message = fst (calls ! i)\<rparr>"

subsection \<open>The event normalizer\<close>

text \<open>
  The object literal \<^verbatim>\<open>paymentData\<close> of the webhook handler, as a function of
  \<^verbatim>\<open>eventData\<close>. The properties are evaluated in the order of the source, and the first
  one that throws ends the evaluation.
\<close>

definition paymentData :: "jsval \<Rightarrow> js_error + payment_data" where
  "paymentData eventData =
     and_then (and_then (get_prop eventData ''id'')
                 (\<lambda>v. or_else v (get_prop eventData ''payment_intent''))) (\<lambda>v_id.
     and_then (and_then (get_prop eventData ''amount'')
                 (\<lambda>v. or_else v (get_prop eventData ''amount_due''))) (\<lambda>v_amount.
     and_then (get_prop eventData ''currency'') (\<lambda>v_currency.
     and_then (and_then (get_prop eventData ''failure_code'')
                 (\<lambda>v. or_else v (and_then (get_prop eventData ''last_payment_error'')
                                    (\<lambda>e. opt_prop e ''code'')))) (\<lambda>v_code.
     and_then (and_then (get_prop eventData ''failure_message'')
                 (\<lambda>v. or_else v (and_then (get_prop eventData ''last_payment_error'')
                                    (\<lambda>e. opt_prop e ''message'')))) (\<lambda>v_message.
     and_then (and_then (and_then (get_prop eventData ''payment_method_types'') opt_index0)
                 (\<lambda>v. or_else v
                    (and_then (and_then (get_prop eventData ''payment_method'')
                                 (\<lambda>m. opt_prop m ''type''))
                       (\<lambda>w. or_else w (and_then (get_prop eventData ''source'')
                                          (\<lambda>s. opt_prop s ''type'')))))) (\<lambda>v_method.
     and_then (get_prop eventData ''created'') (\<lambda>v_created.
     Inr \<lparr>payment_intent_id = v_id,
          amount = v_amount,
          currency = v_currency,
          failure_code = v_code,
          failure_message = v_message,
          payment_method_type = v_method,
          created = v_created,
          customer_name = JStr '''',
          customer_email = JStr ''''\<rparr>)))))))"

text \<open>
  The block \<^verbatim>\<open>if (eventData.customer) { try { ... } catch (customerError) { ... } }\<close>,
  entered with the truthy customer reference. The name is assigned before the email is
  read.
\<close>

definition customer_info :: "env \<Rightarrow> jsval \<Rightarrow> payment_data \<Rightarrow> state \<Rightarrow> payment_data \<times> state" where
  "customer_info env ref pd st =
     (let st1 = st\<lparr>lookups := lookups st @ [ref]\<rparr>;
          failed = (\<lambda>e. log env (''Failed to retrieve customer info: '' @ err_message e) ''error'' st1)
      in case customers_retrieve env ref of
           Inl e \<Rightarrow> (pd, failed e)
         | Inr customer \<Rightarrow>
             (case and_then (get_prop customer ''name'') (\<lambda>v. or_else v (Inr (JStr ''''))) of
                Inl e \<Rightarrow> (pd, failed e)
              | Inr nm \<Rightarrow>
                  (let pd1 = pd\<lparr>customer_name := nm\<rparr>
                   in case and_then (get_prop customer ''email'') (\<lambda>v. or_else v (Inr (JStr ''''))) of
                        Inl e \<Rightarrow> (pd1, failed e)
                      | Inr em \<Rightarrow> (pd1\<lparr>customer_email := em\<rparr>, st1))))"

subsection \<open>The alert sender\<close>

definition nl :: string where
  "nl = [CHR 0x0A]"

text \<open>The bytes of the character U+1F6A8 that opens the subject line.\<close>

definition siren :: string where
  "siren = [CHR 0xF0, CHR 0x9F, CHR 0x9A, CHR 0xA8]"

text \<open>\<^verbatim>\<open>${v || 'dflt'}\<close> in a template literal.\<close>

definition interp :: "env \<Rightarrow> jsval \<Rightarrow> string \<Rightarrow> js_error + string" where
  "interp env v dflt = and_then (or_else v (Inr (JStr dflt))) (to_str env)"

text \<open>
  \<^verbatim>\<open>paymentData.currency?.toUpperCase()\<close>: \<^verbatim>\<open>undefined\<close> when the currency is
  \<^verbatim>\<open>undefined\<close> or \<^verbatim>\<open>null\<close>; any other value that is not a string has no method
  \<^verbatim>\<open>toUpperCase\<close>, and the call throws.
\<close>

fun currency_upper :: "env \<Rightarrow> jsval \<Rightarrow> js_error + jsval" where
  "currency_upper env JUndefined = Inr JUndefined"
| "currency_upper env JNull = Inr JUndefined"
| "currency_upper env (JStr s) = Inr (JStr (toUpperCase env s))"
| "currency_upper env v =
     Inl (TypeError ''paymentData.currency?.toUpperCase is not a function'')"

definition subject :: "env \<Rightarrow> payment_data \<Rightarrow> js_error + string" where
  "subject env pd =
     and_then (interp env (customer_name pd) ''Unknown Customer'') (\<lambda>name.
     Inr (siren @ '' Payment Failed Alert - '' @ name))"

text \<open>
  The strings that fill the template literal of the body, in the order of their
  places; the identifier is printed twice.
\<close>

record alert_values =
  customer_shown :: string
  email_shown :: string
  amount_shown :: string
  currency_text :: string
  method_shown :: string
  code_shown :: string
  message_shown :: string
  id_shown :: string
  time_shown :: string
  link_id :: string

text \<open>
  The template literal of the body, from the line feed after the opening backquote to
  the four spaces before the closing one.
\<close>

definition template :: "alert_values \<Rightarrow> string" where
  "template v =
     nl @ ''A payment failure has been detected in your Stripe account:'' @ nl @
     nl @
     ''Customer: '' @ customer_shown v @ nl @
     ''Customer Email: '' @ email_shown v @ nl @
     ''Amount: $'' @ amount_shown v @ '' '' @ currency_text v @ nl @
     ''Payment Method: '' @ method_shown v @ nl @
     ''Failure Code: '' @ code_shown v @ nl @
     ''Failure Message: '' @ message_shown v @ nl @
     ''Payment Intent ID: '' @ id_shown v @ nl @
     ''Timestamp: '' @ time_shown v @ nl @
     nl @
     ''Please review this failed payment in your Stripe dashboard:'' @ nl @
     ''https://dashboard.stripe.com/payments/'' @ link_id v @ nl @
     nl @
     ''---'' @ nl @
     ''Automated alert from Stripe Payment Monitor'' @ nl @
     ''    ''"

text \<open>
  \<^verbatim>\<open>emailBody\<close>: the expressions of the template are evaluated and converted to
  strings from left to right, and the text is trimmed.
\<close>

definition emailBody :: "env \<Rightarrow> payment_data \<Rightarrow> js_error + string" where
  "emailBody env pd =
     and_then (interp env (customer_name pd) ''Unknown'') (\<lambda>name.
     and_then (interp env (customer_email pd) ''Not provided'') (\<lambda>email.
     and_then (to_number env (amount pd)) (\<lambda>a.
     and_then (and_then (currency_upper env (currency pd)) (\<lambda>c. interp env c ''USD'')) (\<lambda>cur.
     and_then (interp env (payment_method_type pd) ''Unknown'') (\<lambda>method.
     and_then (interp env (failure_code pd) ''Not provided'') (\<lambda>code.
     and_then (interp env (failure_message pd) ''No details provided'') (\<lambda>msg.
     and_then (to_str env (payment_intent_id pd)) (\<lambda>pid.
     and_then (to_number env (created pd)) (\<lambda>secs.
     and_then (to_str env (payment_intent_id pd)) (\<lambda>pid2.
     Inr (trim (template
       \<lparr>customer_shown = name,
        email_shown = email,
        amount_shown = toFixed2 env (div100 a),
        currency_text = cur,
        method_shown = method,
        code_shown = code,
        message_shown = msg,
        id_shown = pid,
        time_shown = toLocaleString env (times1000 secs),
        link_id = pid2\<rparr>))))))))))))"

text \<open>The lines of the message, joined with line feeds.\<close>

definition mime_message :: "env \<Rightarrow> string \<Rightarrow> string \<Rightarrow> string" where
  \<open>mime_message env subj body =
     ''Content-Type: text/plain; charset='' @ [CHR 0x22] @ ''UTF-8'' @ [CHR 0x22] @ nl @
     ''MIME-Version: 1.0'' @ nl @
     ''To: '' @ ALERT_EMAIL env @ nl @
     ''Subject: '' @ subj @ nl @
     '''' @ nl @
     body\<close>

definition b64_char :: "nat \<Rightarrow> char" where
  "b64_char n = ''ABCDEFGHIJKLMNOPQRSTUVWXYZabcdefghijklmnopqrstuvwxyz0123456789+/'' ! n"

text \<open>\<^verbatim>\<open>toString('base64')\<close> of a buffer of bytes.\<close>

fun base64 :: "nat list \<Rightarrow> string" where
  "base64 [] = []"
| "base64 [a] = [b64_char (a div 4), b64_char (a mod 4 * 16), CHR ''='', CHR ''='']"
| "base64 [a, b] =
     [b64_char (a div 4), b64_char (a mod 4 * 16 + b div 16), b64_char (b mod 16 * 4), CHR ''='']"
| "base64 (a # b # c # rest) =
     [b64_char (a div 4), b64_char (a mod 4 * 16 + b div 16),
      b64_char (b mod 16 * 4 + c div 64), b64_char (c mod 64)] @ base64 rest"

text \<open>
  \<^verbatim>\<open>Buffer.from(message).toString('base64')\<close> followed by the three replacements:
  \<^verbatim>\<open>+\<close> by \<^verbatim>\<open>-\<close>, \<^verbatim>\<open>/\<close> by \<^verbatim>\<open>_\<close>, and the padding at the end removed.
\<close>

definition encodedMessage :: "string \<Rightarrow> string" where
  "encodedMessage msg =
     rev (dropWhile (\<lambda>c. c = CHR ''='')
       (rev (map (\<lambda>c. if c = CHR ''/'' then CHR ''_'' else c)
          (map (\<lambda>c. if c = CHR ''+'' then CHR ''-'' else c)
             (base64 (map of_char msg))))))"

text \<open>
  \<^verbatim>\<open>sendEmailAlert(paymentData)\<close>: everything happens inside one \<^verbatim>\<open>try\<close>, whose
  \<^verbatim>\<open>catch\<close> logs the message of the error and returns \<^verbatim>\<open>false\<close>. The message is
  rendered and encoded, then submitted once; after a successful submission the success
  is logged and \<^verbatim>\<open>true\<close> is returned.
\<close>

definition sendEmailAlert :: "env \<Rightarrow> payment_data \<Rightarrow> state \<Rightarrow> bool \<times> state" where
  "sendEmailAlert env pd st0 =
     (let st = st0\<lparr>alerts := alerts st0 @ [pd]\<rparr>;
          caught = (\<lambda>e s. (False, log env (''Failed to send email alert: '' @ err_message e) ''error'' s))
      in case and_then (subject env pd) (\<lambda>subj.
              and_then (emailBody env pd) (\<lambda>body.
              Inr (encodedMessage (mime_message env subj body)))) of
           Inl e \<Rightarrow> caught e st
         | Inr raw \<Rightarrow>
             (let st1 = st\<lparr>outbox := outbox st @ [raw]\<rparr>
              in case gmail_send env (length (outbox st)) raw of
                   Some e \<Rightarrow> caught e st1
                 | None \<Rightarrow>
                     (case to_str env (payment_intent_id pd) of
                        Inl e \<Rightarrow> caught e st1
                      | Inr pid \<Rightarrow>
                          (True, log env (''Email alert sent successfully for payment '' @ pid)
                                   ''info'' st1))))"

subsection \<open>The request handlers\<close>

datatype resp_body = Text string | Json jsval

text \<open>
  A response: \<^verbatim>\<open>res.status(n).send(text)\<close> or \<^verbatim>\<open>res.json(value)\<close>, whose status is 200.
\<close>

record response =
  status :: nat
  body :: resp_body

record request =
  req_body :: string
  stripe_signature :: "string option"

text \<open>\<^verbatim>\<open>GET /health\<close>.\<close>

definition health :: "env \<Rightarrow> state \<Rightarrow> response \<times> state" where
  "health env st =
     (\<lparr>status = 200,
       body = Json (JObj
         [(''status'', JStr ''healthy''),
          (''timestamp'', JStr (now env (ticks st))),
          (''stripe_connected'', JBool (is_set (STRIPE_SECRET_KEY env))),
          (''gmail_connected'',
             JBool (is_set (GMAIL_CLIENT_ID env) \<and> is_set (GMAIL_REFRESH_TOKEN env)))])\<rparr>,
      st\<lparr>ticks := Suc (ticks st)\<rparr>)"

definition entry_json :: "log_entry \<Rightarrow> jsval" where
  "entry_json e =
     JObj [(''timestamp'', JStr (timestamp e)), (''level'', JStr (level e)),
           (''message'', JStr (message e))]"

text \<open>\<^verbatim>\<open>GET /logs\<close>: \<^verbatim>\<open>recentLogs.slice(0, 50)\<close> and \<^verbatim>\<open>recentLogs.length\<close>.\<close>

definition logs :: "state \<Rightarrow> response" where
  "logs st =
     \<lparr>status = 200,
      body = Json (JObj
        [(''logs'', JArr (map entry_json (take 50 (recentLogs st)))),
         (''total'', JNum (int (length (recentLogs st))))])\<rparr>"

text \<open>
  The body of the \<^verbatim>\<open>try\<close> that handles a payment failure event. An error comes with
  the state in which it was thrown.
\<close>

definition process_failure :: "env \<Rightarrow> jsval \<Rightarrow> string \<Rightarrow> state \<Rightarrow> js_error \<times> state + state" where
  "process_failure env event etype st =
     (case and_then (and_then (get_prop event ''data'') (\<lambda>d. get_prop d ''object''))
             (\<lambda>eventData.
                and_then (paymentData eventData) (\<lambda>pd.
                and_then (get_prop eventData ''customer'') (\<lambda>ref. Inr (pd, ref)))) of
        Inl e \<Rightarrow> Inl (e, st)
      | Inr (pd0, ref) \<Rightarrow>
          (let (pd, st1) = (if truthy ref then customer_info env ref pd0 st else (pd0, st))
           in case and_then (to_str env (payment_intent_id pd)) (\<lambda>pid.
                   and_then (to_number env (amount pd)) (\<lambda>a.
                   Inr (''Processing payment failure: '' @ pid @ '', Amount: $'' @
                        toFixed2 env (div100 a)))) of
                Inl e \<Rightarrow> Inl (e, st1)
              | Inr line \<Rightarrow>
                  (let st2 = log env line ''info'' st1;
                       (emailSent, st3) = sendEmailAlert env pd st2
                   in if emailSent
                      then Inr (log env (''Successfully processed payment failure event: '' @ etype)
                                  ''info'' st3)
                      else (case to_str env (payment_intent_id pd) of
                              Inl e \<Rightarrow> Inl (e, st3)
                            | Inr pid \<Rightarrow>
                                Inr (log env (''Failed to send alert for payment failure: '' @ pid)
                                       ''error'' st3)))))"

definition failure_kinds :: "string list" where
  "failure_kinds = [''payment_intent.payment_failed'', ''invoice.payment_failed'', ''charge.failed'']"

text \<open>
  The \<^verbatim>\<open>if\<close> that follows the verification: an event of one of the three kinds is
  processed, and an error of the processing is logged and goes no further.
\<close>

definition handle_failure :: "env \<Rightarrow> jsval \<Rightarrow> jsval \<Rightarrow> state \<Rightarrow> state" where
  "handle_failure env event ty st =
     (case ty of
        JStr etype \<Rightarrow>
          (if etype \<in> set failure_kinds
           then (case process_failure env event etype st of
                   Inl (e, st') \<Rightarrow>
                     log env (''Error processing payment failure event: '' @ err_message e)
                       ''error'' st'
                 | Inr st' \<Rightarrow> st')
           else st)
      | _ \<Rightarrow> st)"

text \<open>
  \<^verbatim>\<open>POST /webhook\<close>. The first \<^verbatim>\<open>try\<close> holds the verification and the log line that
  prints \<^verbatim>\<open>event.type\<close>; whatever it throws is answered with 400.
\<close>

definition webhook :: "env \<Rightarrow> request \<Rightarrow> state \<Rightarrow> response \<times> state" where
  "webhook env req st =
     (case and_then (constructEvent env (req_body req) (stripe_signature req)
                       (STRIPE_WEBHOOK_SECRET env)) (\<lambda>event.
           and_then (get_prop event ''type'') (\<lambda>ty.
           and_then (to_str env ty) (\<lambda>shown. Inr (event, ty, shown)))) of
        Inl err \<Rightarrow>
          (\<lparr>status = 400, body = Text (''Webhook Error: '' @ err_message err)\<rparr>,
           log env (''Webhook signature verification failed: '' @ err_message err) ''error'' st)
      | Inr (event, ty, shown) \<Rightarrow>
          (\<lparr>status = 200, body = Json (JObj [(''received'', JBool True), (''type'', ty)])\<rparr>,
           handle_failure env event ty
             (log env (''Received Stripe webhook event: '' @ shown) ''info'' st)))"

subsection \<open>A concrete environment\<close>

text \<open>
  An environment in which the signature check rejects every request, the customer
  lookup fails and the mail API accepts every message. The theorems are applied to it,
  and to variants of it, at concrete inputs.
\<close>

definition example_env :: env where
  "example_env =
     \<lparr>now = (\<lambda>n. ''2025-01-01T00:00:00.000Z''),
      StringToNumber = (\<lambda>s. NaN),
      NumberToString = (\<lambda>x. ''1e+21''),
      UpperCase = (\<lambda>s. s),
      toLocaleString = (\<lambda>x. ''Invalid Date''),
      constructEvent = (\<lambda>b s k. Inl (ApiError ''No stripe-signature header value was provided.'')),
      customers_retrieve = (\<lambda>r. Inl (ApiError ''No such customer'')),
      gmail_send = (\<lambda>n raw. None),
      STRIPE_SECRET_KEY = Some ''sk_test_1'',
      STRIPE_WEBHOOK_SECRET = Some ''whsec_1'',
      GMAIL_CLIENT_ID = Some ''client'',
      GMAIL_CLIENT_SECRET = None,
      GMAIL_REFRESH_TOKEN = Some ''refresh'',
      ALERT_EMAIL_var = None\<rparr>"

text \<open>101 calls of \<^verbatim>\<open>log\<close> with the messages \<open>''''\<close>, \<open>''a''\<close>, \<open>''aa''\<close>, ...\<close>

definition example_calls :: "(string \<times> string) list" where
  "example_calls = map (\<lambda>i. (replicate i (CHR ''a''), ''info'')) [0..<101]"

text \<open>
  A payment intent with an amount of 1999, the currency \<^verbatim>\<open>usd\<close> and no customer
  reference, the event that carries it, and the record that the normalizer makes of it.
\<close>

definition example_intent :: jsval where
  "example_intent =
     JObj [(''id'', JStr ''pi_1''), (''object'', JStr ''payment_intent''),
           (''amount'', JNum 1999), (''currency'', JStr ''usd''),
           (''created'', JNum 1700000000)]"

definition example_event :: jsval where
  "example_event =
     JObj [(''id'', JStr ''evt_1''), (''type'', JStr ''payment_intent.payment_failed''),
           (''data'', JObj [(''object'', example_intent)])]"

definition example_record :: payment_data where
  "example_record =
     \<lparr>payment_intent_id = JStr ''pi_1'', amount = JNum 1999, currency = JStr ''usd'',
      failure_code = JUndefined, failure_message = JUndefined,
      payment_method_type = JUndefined, created = JNum 1700000000,
      customer_name = JStr '''', customer_email = JStr ''''\<rparr>"

text \<open>A failed charge of a customer, and its event.\<close>

definition charge_fields :: "(string \<times> jsval) list" where
  "charge_fields =
     [(''id'', JStr ''ch_1''), (''object'', JStr ''charge''),
      (''amount'', JNum 500), (''currency'', JStr ''eur''),
      (''customer'', JStr ''cus_1''), (''failure_code'', JStr ''card_declined''),
      (''created'', JNum 1700000000)]"


definition charge_event :: jsval where
  "charge_event =
     JObj [(''id'', JStr ''evt_2''), (''type'', JStr ''charge.failed''),
           (''data'', JObj [(''object'', JObj charge_fields)])]"

text \<open>An event of a failure kind that carries no data.\<close>

definition bare_event :: jsval where
  "bare_event = JObj [(''id'', JStr ''evt_3''), (''type'', JStr ''invoice.payment_failed'')]"

definition example_request :: request where
  "example_request = \<lparr>req_body = ''{}'', stripe_signature = Some ''t=1,v1=0''\<rparr>"

text \<open>
  Environments in which the signature check accepts the request and returns an event,
  and one in which, besides, the mail API rejects every message.
\<close>

definition verified_env :: "jsval \<Rightarrow> env" where
  "verified_env event = example_env\<lparr>constructEvent := (\<lambda>b s k. Inr event)\<rparr>"

definition bounced_env :: "jsval \<Rightarrow> env" where
  "bounced_env event =
     (verified_env event)\<lparr>gmail_send := (\<lambda>n raw. Some (ApiError ''invalid_grant''))\<rparr>"

subsection \<open>Notions used to state the properties\<close>

text \<open>
  First match wins: the first candidate that is truthy, and the last candidate when
  none is.
\<close>

fun first_match :: "jsval list \<Rightarrow> jsval" where
  "first_match [] = JUndefined"
| "first_match [v] = v"
| "first_match (v # vs) = (if truthy v then v else first_match vs)"

text \<open>The property \<open>p\<close> of a nested object, \<^verbatim>\<open>undefined\<close> when there is no such object.\<close>

fun nested :: "jsval \<Rightarrow> string \<Rightarrow> jsval" where
  "nested (JObj kvs) p = own_prop kvs p"
| "nested v p = JUndefined"

text \<open>The first element of an array (of a string, its first character).\<close>

fun first_elem :: "jsval \<Rightarrow> jsval" where
  "first_elem (JArr (x # xs)) = x"
| "first_elem (JStr (c # s)) = JStr [c]"
| "first_elem (JObj kvs) = own_prop kvs ''0''"
| "first_elem v = JUndefined"

text \<open>
  An amount in minor units divided by 100, with two decimals: the sign, the digits of
  the hundreds, a point and the two digits of the rest.
\<close>

definition two_decimals :: "int \<Rightarrow> string" where
  "two_decimals n =
     (if n < 0 then ''-'' else '''') @ decimal (\<bar>n\<bar> div 100) @ ''.'' @
     [digit (\<bar>n\<bar> mod 100 div 10), digit (\<bar>n\<bar> mod 10)]"

text \<open>The currency in upper case, or \<^verbatim>\<open>USD\<close> when there is none.\<close>

fun currency_shown :: "env \<Rightarrow> jsval \<Rightarrow> string" where
  "currency_shown env (JStr c) =
     (if toUpperCase env c = [] then ''USD'' else toUpperCase env c)"
| "currency_shown env v = ''USD''"

text \<open>
  A value that is not an array and not an object, and a record all of whose fields are
  such values, the currency being a string when it is there. The records of the data
  model are of this kind: their fields are strings and integers, some of them optional.
\<close>

fun primitive :: "jsval \<Rightarrow> bool" where
  "primitive (JArr xs) = False"
| "primitive (JObj kvs) = False"
| "primitive v = True"

fun text_or_absent :: "jsval \<Rightarrow> bool" where
  "text_or_absent (JStr s) = True"
| "text_or_absent JUndefined = True"
| "text_or_absent JNull = True"
| "text_or_absent v = False"

definition plain_record :: "payment_data \<Rightarrow> bool" where
  "plain_record pd =
     (primitive (payment_intent_id pd) \<and> primitive (amount pd) \<and>
      text_or_absent (currency pd) \<and> primitive (failure_code pd) \<and>
      primitive (failure_message pd) \<and> primitive (payment_method_type pd) \<and>
      primitive (created pd) \<and> primitive (customer_name pd) \<and>
      primitive (customer_email pd))"

text \<open>A field of the JSON object that a response carries.\<close>

definition json_field :: "response \<Rightarrow> string \<Rightarrow> jsval option" where
  "json_field r k = (case body r of Json (JObj kvs) \<Rightarrow> map_of kvs k | _ \<Rightarrow> None)"

text \<open>The text of the alert as it is sent: the template without its margins.\<close>

definition alert_text :: "alert_values \<Rightarrow> string" where
  "alert_text v =
     ''A payment failure has been detected in your Stripe account:'' @ nl @
     nl @
     ''Customer: '' @ customer_shown v @ nl @
     ''Customer Email: '' @ email_shown v @ nl @
     ''Amount: $'' @ amount_shown v @ '' '' @ currency_text v @ nl @
     ''Payment Method: '' @ method_shown v @ nl @
     ''Failure Code: '' @ code_shown v @ nl @
     ''Failure Message: '' @ message_shown v @ nl @
     ''Payment Intent ID: '' @ id_shown v @ nl @
     ''Timestamp: '' @ time_shown v @ nl @
     nl @
     ''Please review this failed payment in your Stripe dashboard:'' @ nl @
     ''https://dashboard.stripe.com/payments/'' @ link_id v @ nl @
     nl @
     ''---'' @ nl @
     ''Automated alert from Stripe Payment Monitor''"

text \<open>The bound of the activity log.\<close>

definition bounded :: "state \<Rightarrow> bool" where
  "bounded st = (length (recentLogs st) \<le> 100)"


text \<open>
  The record of the example with an amount of \<open>9007199254740893\<close>, and the text of the
  alert with the amount \<^verbatim>\<open>90071992547408.94\<close>.
\<close>

definition large_record :: payment_data where
  "large_record = example_record\<lparr>amount := JNum 9007199254740893\<rparr>"

definition large_body :: string where
  "large_body =
     alert_text
       \<lparr>customer_shown = ''Unknown'', email_shown = ''Not provided'',
        amount_shown = ''90071992547408.94'', currency_text = ''USD'',
        method_shown = ''Unknown'', code_shown = ''Not provided'',
        message_shown = ''No details provided'', id_shown = ''pi_1'',
        time_shown = ''Invalid Date'', link_id = ''pi_1''\<rparr>"
section \<open>Properties\<close>

subsection \<open>The activity log\<close>

lemma ticks_log: "ticks (log env m l st) = Suc (ticks st)"
  by (simp add: log_def Let_def)

lemma recentLogs_log:
  assumes "length (recentLogs st) \<le> 100"
  shows "recentLogs (log env m l st) =
    take 100 (\<lparr>timestamp = now env (ticks st), level = l, message = m\<rparr> # recentLogs st)"
proof (cases "length (recentLogs st) = 100")
  case True
  then show ?thesis by (simp add: log_def Let_def butlast_conv_take)
next
  case False
  with assms show ?thesis by (simp add: log_def Let_def)
qed

lemma length_recentLogs_log:
  "length (recentLogs st) \<le> 100 \<Longrightarrow> length (recentLogs (log env m l st)) \<le> 100"
  by (simp add: recentLogs_log)

lemma log_all_Nil: "log_all env [] st = st"
  by (simp add: log_all_def)

lemma log_all_Cons: "log_all env (c # cs) st = log_all env cs (log env (fst c) (snd c) st)"
  by (simp add: log_all_def split_beta)

lemma take_append_take: "take n (xs @ take n ys) = take n (xs @ ys)"
  by simp

lemma entry_of_Suc:
  "entry_of env (log env m l st) cs i = entry_of env st (c # cs) (Suc i)"
  by (simp add: entry_of_def ticks_log)

text \<open>
  After any run of calls the array holds the entries created by the run, newest first,
  followed by what was there before, as far as 100 reaches.
\<close>

lemma recentLogs_log_all:
  "length (recentLogs st) \<le> 100 \<Longrightarrow>
   recentLogs (log_all env calls st) =
     take 100 (rev (map (entry_of env st calls) [0..<length calls]) @ recentLogs st)"
proof (induction calls arbitrary: st)
  case Nil
  then show ?case by (simp add: log_all_Nil)
next
  case (Cons c cs)
  let ?st1 = "log env (fst c) (snd c) st"
  have e0: "entry_of env st (c # cs) 0 =
      \<lparr>timestamp = now env (ticks st), level = snd c, message = fst c\<rparr>"
    by (simp add: entry_of_def)
  have shift: "map (entry_of env st (c # cs)) [0..<length (c # cs)] =
      entry_of env st (c # cs) 0 # map (entry_of env ?st1 cs) [0..<length cs]"
    by (simp add: upt_conv_Cons map_Suc_upt [symmetric] entry_of_Suc [symmetric] del: upt_Suc)
  have "recentLogs (log_all env (c # cs) st) =
      take 100 (rev (map (entry_of env ?st1 cs) [0..<length cs]) @ recentLogs ?st1)"
    using Cons.IH [of ?st1] Cons.prems by (simp add: log_all_Cons length_recentLogs_log)
  also have "\<dots> = take 100 (rev (map (entry_of env ?st1 cs) [0..<length cs]) @
      (entry_of env st (c # cs) 0 # recentLogs st))"
    using Cons.prems by (simp only: recentLogs_log e0 take_append_take)
  finally show ?case by (simp only: shift rev.simps append_assoc append_Cons append_Nil)
qed

lemma length_recentLogs_log_all:
  "length (recentLogs st) \<le> 100 \<Longrightarrow> length (recentLogs (log_all env calls st)) \<le> 100"
  by (simp add: recentLogs_log_all)

lemma recentLogs_log_all_101:
  assumes "recentLogs st = []" and "length calls = 101"
  shows "recentLogs (log_all env calls st) = map (entry_of env st calls) (rev [1..<101])"
proof -
  have "[0..<101] = 0 # [1..<101]"
    by (simp add: upt_conv_Cons del: upt_Suc)
  then have "rev (map (entry_of env st calls) [0..<101]) =
      map (entry_of env st calls) (rev [1..<101]) @ [entry_of env st calls 0]"
    by (simp add: rev_map del: upt_Suc)
  then show ?thesis
    using assms by (simp add: recentLogs_log_all del: upt_Suc)
qed

text \<open>
  Claim C3. The activity log never exceeds 100 entries: a call of \<^verbatim>\<open>log\<close>, and any run
  of calls, keeps the length at or below 100. After 101 calls that start from the empty
  log, the log holds exactly the entries of the calls 2 to 101, the newest first: its
  length is 100, the entry of the 101st call is at index 0, and the entry of the first
  call has left the log (an entry equal to it can be there only if a later call has
  created an equal one).
\<close>

theorem activity_log_capacity:
  "(length (recentLogs st) \<le> 100 \<longrightarrow>
      length (recentLogs (log env m l st)) \<le> 100 \<and>
      length (recentLogs (log_all env calls st)) \<le> 100) \<and>
   (recentLogs st = [] \<and> length calls = 101 \<longrightarrow>
      recentLogs (log_all env calls st) = map (entry_of env st calls) (rev [1..<101]) \<and>
      length (recentLogs (log_all env calls st)) = 100 \<and>
      recentLogs (log_all env calls st) ! 0 = entry_of env st calls 100 \<and>
      (entry_of env st calls 0 \<notin> entry_of env st calls ` {1..100} \<longrightarrow>
         entry_of env st calls 0 \<notin> set (recentLogs (log_all env calls st))))"
proof (intro conjI impI)
  assume "length (recentLogs st) \<le> 100"
  then show "length (recentLogs (log env m l st)) \<le> 100"
    by (rule length_recentLogs_log)
next
  assume "length (recentLogs st) \<le> 100"
  then show "length (recentLogs (log_all env calls st)) \<le> 100"
    by (rule length_recentLogs_log_all)
next
  assume a: "recentLogs st = [] \<and> length calls = 101"
  then show eq: "recentLogs (log_all env calls st) = map (entry_of env st calls) (rev [1..<101])"
    by (simp only: recentLogs_log_all_101)
  show "length (recentLogs (log_all env calls st)) = 100"
    by (simp only: eq length_map length_rev length_upt)
  have "rev [1..<101] ! 0 = 100"
    by (simp add: rev_nth)
  then show "recentLogs (log_all env calls st) ! 0 = entry_of env st calls 100"
    by (simp only: eq) (simp add: rev_nth del: upt_Suc)
  have "set (rev [1..<101]) = {1..100::nat}"
    by (auto simp del: upt_Suc)
  then have "set (recentLogs (log_all env calls st)) = entry_of env st calls ` {1..100}"
    by (simp only: eq set_map)
  moreover assume "entry_of env st calls 0 \<notin> entry_of env st calls ` {1..100}"
  ultimately show "entry_of env st calls 0 \<notin> set (recentLogs (log_all env calls st))"
    by simp
qed

theorem activity_log_capacity_witness:
  "length (recentLogs init_state) \<le> 100 \<and>
   recentLogs init_state = [] \<and>
   length example_calls = 101 \<and>
   entry_of example_env init_state example_calls 0 \<notin>
     entry_of example_env init_state example_calls ` {1..100} \<and>
   length (recentLogs (log example_env ''started'' ''info'' init_state)) \<le> 100 \<and>
   length (recentLogs (log_all example_env example_calls init_state)) = 100 \<and>
   message (recentLogs (log_all example_env example_calls init_state) ! 0) =
     replicate 100 (CHR ''a'') \<and>
   entry_of example_env init_state example_calls 0 \<notin>
     set (recentLogs (log_all example_env example_calls init_state))"
proof -
  have h1: "recentLogs init_state = []"
    by (simp add: init_state_def)
  have h2: "length example_calls = 101"
    by (simp add: example_calls_def)
  have h3: "entry_of example_env init_state example_calls 0 \<notin>
     entry_of example_env init_state example_calls ` {1..100}"
    by (auto simp add: entry_of_def example_calls_def simp del: upt_Suc)
  have h4: "message (entry_of example_env init_state example_calls 100) = replicate 100 (CHR ''a'')"
    by (simp add: entry_of_def example_calls_def del: upt_Suc)
  have h0: "length (recentLogs init_state) \<le> 100"
    by (simp add: h1)
  note inst = activity_log_capacity [of init_state example_env "''started''" "''info''" example_calls]
  from inst h0 have c1: "length (recentLogs (log example_env ''started'' ''info'' init_state)) \<le> 100"
    by blast
  from inst h1 h2 have c2: "length (recentLogs (log_all example_env example_calls init_state)) = 100"
    by blast
  from inst h1 h2 have "recentLogs (log_all example_env example_calls init_state) ! 0 =
      entry_of example_env init_state example_calls 100"
    by blast
  with h4 have c3: "message (recentLogs (log_all example_env example_calls init_state) ! 0) =
      replicate 100 (CHR ''a'')"
    by (simp only:)
  from inst h1 h2 h3 have c4: "entry_of example_env init_state example_calls 0 \<notin>
      set (recentLogs (log_all example_env example_calls init_state))"
    by blast
  from h0 h1 h2 h3 c1 c2 c3 c4 show ?thesis
    by (intro conjI)
qed


subsection \<open>Evaluation of the operators\<close>

lemma and_then_Inr [simp]: "and_then (Inr x) f = f x"
  by (simp add: and_then_def)

lemma and_then_Inl [simp]: "and_then (Inl e) f = Inl e"
  by (simp add: and_then_def)

lemma or_else_truthy [simp]: "truthy a \<Longrightarrow> or_else a b = Inr a"
  by (simp add: or_else_def)

lemma or_else_falsy [simp]: "\<not> truthy a \<Longrightarrow> or_else a b = b"
  by (simp add: or_else_def)

lemma get_prop_total: "\<not> nullish v \<Longrightarrow> get_prop v p = Inr (nested v p)"
  by (cases v) simp_all

lemma opt_prop_nested: "opt_prop v p = Inr (nested v p)"
  by (cases v) (simp_all add: opt_prop_def)

lemma opt_index0_first_elem: "opt_index0 v = Inr (first_elem v)"
proof (cases v)
  case (JStr s)
  then show ?thesis by (cases s) (simp_all add: opt_index0_def)
next
  case (JArr xs)
  then show ?thesis by (cases xs) (simp_all add: opt_index0_def)
qed (simp_all add: opt_index0_def)

lemma nested_nullish: "nullish v \<Longrightarrow> nested v p = JUndefined"
  by (cases v) simp_all

lemma own_prop_absent: "map_of kvs p = None \<Longrightarrow> own_prop kvs p = JUndefined"
  by (simp add: own_prop_def)

lemma own_prop_present: "map_of kvs p = Some v \<Longrightarrow> own_prop kvs p = v"
  by (simp add: own_prop_def)

subsection \<open>Rounding to a double\<close>

lemma ilog2_nonneg: "0 \<le> ilog2 n"
  by (induction n rule: ilog2.induct) (subst ilog2.simps, simp)

lemma ilog2_bounds:
  "0 < n \<Longrightarrow> (2::rat) powi ilog2 n \<le> of_int n \<and> of_int n < (2::rat) powi (ilog2 n + 1)"
proof (induction n rule: ilog2.induct)
  case (1 n)
  show ?case
  proof (cases "n < 2")
    case True
    with "1.prems" have "n = 1"
      by simp
    then show ?thesis
      by (simp add: ilog2.simps)
  next
    case False
    then have pos: "0 < n div 2"
      by simp
    from "1.IH" [OF False pos]
    have ih: "(2::rat) powi ilog2 (n div 2) \<le> of_int (n div 2)"
      "of_int (n div 2) < (2::rat) powi (ilog2 (n div 2) + 1)"
      by simp_all
    have eq: "ilog2 n = ilog2 (n div 2) + 1"
      using False by (subst ilog2.simps) simp
    have lo: "2 * (n div 2) \<le> n" and hi: "n < 2 * (n div 2 + 1)"
      by simp_all
    have "(2::rat) powi ilog2 n = 2 * 2 powi ilog2 (n div 2)"
      by (simp add: eq power_int_add)
    also have "\<dots> \<le> 2 * of_int (n div 2)"
      using ih(1) by simp
    also have "\<dots> \<le> of_int n"
      using lo by (metis of_int_le_iff of_int_mult of_int_numeral)
    finally have first: "(2::rat) powi ilog2 n \<le> of_int n" .
    have "(n div 2) + 1 \<le> 2 ^ nat (ilog2 (n div 2) + 1)"
    proof -
      have "(of_int (n div 2) :: rat) < of_int (2 ^ nat (ilog2 (n div 2) + 1))"
        using ih(2) ilog2_nonneg [of "n div 2"] by (simp add: power_int_def)
      then have "n div 2 < 2 ^ nat (ilog2 (n div 2) + 1)"
        by (simp only: of_int_less_iff)
      then show ?thesis
        by simp
    qed
    then have "n < 2 * 2 ^ nat (ilog2 (n div 2) + 1)"
      using hi by linarith
    then have "(of_int n :: rat) < of_int (2 * 2 ^ nat (ilog2 (n div 2) + 1))"
      by (simp only: of_int_less_iff)
    also have "\<dots> = 2 powi (ilog2 n + 1)"
      using ilog2_nonneg [of "n div 2"] by (simp add: eq power_int_def nat_add_distrib)
    finally show ?thesis
      using first by simp
  qed
qed

lemma pow2_pos: "0 < (2::rat) powi k"
  by (simp add: zero_less_power_int)

lemma exponent_bounds:
  assumes "x \<noteq> 0"
  shows "2 powi exponent x \<le> \<bar>x\<bar>" and "\<bar>x\<bar> < 2 powi (exponent x + 1)"
proof -
  obtain a b where q: "quotient_of \<bar>x\<bar> = (a, b)"
    by (cases "quotient_of \<bar>x\<bar>")
  then have b: "0 < b" and x: "\<bar>x\<bar> = of_int a / of_int b"
    by (simp_all add: quotient_of_denom_pos quotient_of_div)
  from assms have "0 < \<bar>x\<bar>"
    by simp
  with x b have a: "0 < a"
    by (simp add: zero_less_divide_iff)
  let ?k = "ilog2 a - ilog2 b"
  from ilog2_bounds [OF a] ilog2_bounds [OF b]
  have la: "(2::rat) powi ilog2 a \<le> of_int a" "of_int a < (2::rat) powi (ilog2 a + 1)"
    and lb: "(2::rat) powi ilog2 b \<le> of_int b" "of_int b < (2::rat) powi (ilog2 b + 1)"
    by simp_all
  have bpos: "(0::rat) < of_int b"
    using b by simp
  have upper: "\<bar>x\<bar> < 2 powi (?k + 1)"
  proof -
    have "of_int a < (2::rat) powi (?k + 1) * 2 powi ilog2 b"
      using la(2) by (simp flip: power_int_add)
    also have "\<dots> \<le> 2 powi (?k + 1) * of_int b"
      using lb(1) pow2_pos [of "?k + 1"] by (simp add: mult_left_mono)
    finally show ?thesis
      using bpos by (simp add: x pos_divide_less_eq)
  qed
  have lower: "2 powi (?k - 1) \<le> \<bar>x\<bar>"
  proof -
    have "(2::rat) powi (?k - 1) * of_int b \<le> 2 powi (?k - 1) * 2 powi (ilog2 b + 1)"
      using lb(2) pow2_pos [of "?k - 1"] by (simp add: mult_left_mono less_imp_le)
    also have "\<dots> = 2 powi ilog2 a"
      by (simp flip: power_int_add)
    also have "\<dots> \<le> of_int a"
      by (rule la(1))
    finally show ?thesis
      using bpos by (simp add: x pos_le_divide_eq)
  qed
  have e: "exponent x = (if 2 powi ?k \<le> \<bar>x\<bar> then ?k else ?k - 1)"
    by (simp add: exponent_def q)
  show "2 powi exponent x \<le> \<bar>x\<bar>"
    using lower by (simp add: e)
  show "\<bar>x\<bar> < 2 powi (exponent x + 1)"
    using upper by (auto simp add: e not_le)
qed

lemma exponent_less:
  assumes "x \<noteq> 0" and "\<bar>x\<bar> < 2 powi k"
  shows "exponent x < k"
proof (rule ccontr)
  assume "\<not> exponent x < k"
  then have "(2::rat) powi k \<le> 2 powi exponent x"
    by (intro power_int_increasing) simp_all
  with exponent_bounds(1) [OF assms(1)] assms(2) show False
    by simp
qed

lemma round_half_even_close:
  "\<bar>of_int (round_half_even q) - q\<bar> \<le> 1 / 2"
proof -
  define f where "f = \<lfloor>q\<rfloor>"
  have lo: "of_int f \<le> q" and hi: "q < of_int f + 1"
    unfolding f_def by linarith+
  consider "q - of_int f < 1 / 2" | "1 / 2 < q - of_int f" | "q - of_int f = 1 / 2"
    by linarith
  then show ?thesis
  proof cases
    case 1
    then have "round_half_even q = f"
      by (simp add: round_half_even_def f_def Let_def)
    with lo 1 show ?thesis
      by (simp add: abs_if)
  next
    case 2
    then have "round_half_even q = f + 1"
      by (simp add: round_half_even_def f_def Let_def)
    with hi 2 show ?thesis
      by (simp add: abs_if)
  next
    case 3
    then have "round_half_even q = f \<or> round_half_even q = f + 1"
      by (simp add: round_half_even_def f_def Let_def)
    with 3 show ?thesis
      by (auto simp add: abs_if)
  qed
qed

lemma round_half_even_int: "round_half_even (of_int k) = k"
  by (simp add: round_half_even_def Let_def)

lemma round_half_even_nonneg: "0 \<le> q \<Longrightarrow> 0 \<le> round_half_even q"
  by (auto simp add: round_half_even_def Let_def)

text \<open>Rounding a nonzero number below \<open>2^46\<close> moves it by at most \<open>2^-8\<close>.\<close>

lemma round_double_close:
  assumes "x \<noteq> 0" and "\<bar>x\<bar> < 2 powi 46"
  shows "\<exists>r. 0 \<le> r \<and> \<bar>r - \<bar>x\<bar>\<bar> \<le> 1 / 256 \<and> round_double x = Num (if x < 0 then - r else r)"
proof -
  define e where "e = max (exponent x) (- 1022)"
  define ulp :: rat where "ulp = 2 powi (e - 52)"
  define m where "m = round_half_even (\<bar>x\<bar> / ulp)"
  define r where "r = of_int m * ulp"
  from exponent_less [OF assms] have "e \<le> 45"
    by (simp add: e_def)
  then have "ulp \<le> 2 powi (- 7)"
    unfolding ulp_def by (intro power_int_increasing) simp_all
  then have small: "ulp \<le> 1 / 128"
    by (simp add: power_int_minus)
  have pos: "0 < ulp"
    by (simp add: ulp_def pow2_pos)
  have "0 \<le> \<bar>x\<bar> / ulp"
    using pos by simp
  then have "0 \<le> m"
    unfolding m_def by (rule round_half_even_nonneg)
  then have nonneg: "0 \<le> r"
    using pos by (simp add: r_def)
  have "r - \<bar>x\<bar> = (of_int m - \<bar>x\<bar> / ulp) * ulp"
    using pos by (simp add: r_def algebra_simps)
  then have "\<bar>r - \<bar>x\<bar>\<bar> = \<bar>of_int m - \<bar>x\<bar> / ulp\<bar> * ulp"
    using pos by (simp add: abs_mult)
  also have "\<dots> \<le> (1 / 2) * ulp"
    using round_half_even_close [of "\<bar>x\<bar> / ulp"] pos
    by (intro mult_right_mono) (simp_all add: m_def)
  also have "\<dots> \<le> 1 / 256"
    using small by simp
  finally have close: "\<bar>r - \<bar>x\<bar>\<bar> \<le> 1 / 256" .
  have "r \<le> \<bar>x\<bar> + 1 / 256"
    using close by linarith
  also have "\<dots> < 2 powi 46 + 1"
    using assms(2) by linarith
  also have "\<dots> \<le> 2 powi 47"
    by simp
  also have "\<dots> \<le> 2 powi 1024"
    by (rule power_int_increasing) simp_all
  finally have "r < 2 powi 1024" .
  then have "round_double x = Num (if x < 0 then - r else r)"
    using assms(1)
    by (simp add: round_double_def Let_def e_def ulp_def m_def r_def not_le del: power_int_numeral)
  with nonneg close show ?thesis
    by blast
qed

text \<open>An integer below \<open>2^53\<close> is a double.\<close>

lemma round_double_int:
  assumes "\<bar>n\<bar> < 2 ^ 53"
  shows "round_double (of_int n) = Num (of_int n)"
proof (cases "n = 0")
  case True
  then show ?thesis
    by (simp add: round_double_def)
next
  case False
  define x :: rat where "x = of_int n"
  define e where "e = max (exponent x) (- 1022)"
  define j where "j = nat (52 - e)"
  have x0: "x \<noteq> 0"
    using False by (simp add: x_def)
  from assms have "(of_int \<bar>n\<bar> :: rat) < of_int (2 ^ 53)"
    by (simp only: of_int_less_iff)
  then have below: "\<bar>x\<bar> < 2 powi 53"
    by (simp add: x_def)
  from exponent_less [OF x0 below] have e: "e \<le> 52"
    by (simp add: e_def)
  have ulp: "(2::rat) powi (e - 52) = 1 / 2 ^ j"
  proof -
    have "e - 52 = - int j"
      using e by (simp add: j_def)
    then show ?thesis
      by (simp add: power_int_minus_divide)
  qed
  have "\<bar>x\<bar> / (1 / 2 ^ j) = of_int (\<bar>n\<bar> * 2 ^ j)"
    by (simp add: x_def)
  then have "round_half_even (\<bar>x\<bar> / (1 / 2 ^ j)) = \<bar>n\<bar> * 2 ^ j"
    by (simp only: round_half_even_int)
  then have r: "of_int (round_half_even (\<bar>x\<bar> / (1 / 2 ^ j))) * (1 / 2 ^ j) = \<bar>x\<bar>"
    by (simp add: x_def)
  have "\<bar>x\<bar> < 2 powi 1024"
    using below power_int_increasing [of 53 1024 "2::rat"] by simp
  then have "round_double x = Num (if x < 0 then - \<bar>x\<bar> else \<bar>x\<bar>)"
    using x0 unfolding round_double_def Let_def e_def [symmetric] ulp r
    by (simp add: not_le del: power_int_numeral)
  then show ?thesis
    by (simp add: x_def abs_if)
qed

lemma exponent_eq:
  assumes "2 powi e \<le> \<bar>x\<bar>" and "\<bar>x\<bar> < 2 powi (e + 1)"
  shows "exponent x = e"
proof -
  from pow2_pos [of e] assms(1) have "0 < \<bar>x\<bar>"
    by (rule less_le_trans)
  then have x0: "x \<noteq> 0"
    by simp
  from exponent_less [OF x0 assms(2)] have "exponent x \<le> e"
    by simp
  moreover have "e \<le> exponent x"
  proof (rule ccontr)
    assume "\<not> e \<le> exponent x"
    then have "(2::rat) powi (exponent x + 1) \<le> 2 powi e"
      by (intro power_int_increasing) simp_all
    with exponent_bounds(2) [OF x0] assms(1) show False
      by simp
  qed
  ultimately show ?thesis
    by simp
qed

text \<open>The double nearest to a number whose exponent is known.\<close>

lemma round_double_exponent:
  assumes "2 powi e \<le> \<bar>x\<bar>" and "\<bar>x\<bar> < 2 powi (e + 1)" and "- 1022 \<le> e" and "e \<le> 1022"
  shows "round_double x =
    Num (if x < 0 then - (of_int (round_half_even (\<bar>x\<bar> / 2 powi (e - 52))) * 2 powi (e - 52))
         else of_int (round_half_even (\<bar>x\<bar> / 2 powi (e - 52))) * 2 powi (e - 52))"
proof -
  define ulp :: rat where "ulp = 2 powi (e - 52)"
  define m where "m = round_half_even (\<bar>x\<bar> / ulp)"
  from pow2_pos [of e] assms(1) have "0 < \<bar>x\<bar>"
    by (rule less_le_trans)
  then have x0: "x \<noteq> 0"
    by simp
  have pos: "0 < ulp"
    by (simp add: ulp_def pow2_pos)
  have e: "max (exponent x) (- 1022) = e"
    using exponent_eq [OF assms(1,2)] assms(3) by simp
  have split: "(2::rat) powi (e + 1) = 9007199254740992 * ulp"
    using power_int_add [of "2::rat" 53 "e - 52"] by (simp add: ulp_def add.commute)
  with assms(2) have "\<bar>x\<bar> / ulp < 9007199254740992"
    using pos by (simp add: pos_divide_less_eq)
  moreover have "of_int m \<le> \<bar>x\<bar> / ulp + 1 / 2"
    using round_half_even_close [of "\<bar>x\<bar> / ulp"] unfolding m_def by linarith
  ultimately have "(of_int m :: rat) < of_int (9007199254740992 + 1)"
    by simp
  then have "m < 9007199254740992 + 1"
    by (simp only: of_int_less_iff)
  then have "m \<le> 9007199254740992"
    by simp
  then have "(of_int m :: rat) \<le> of_int 9007199254740992"
    by (simp only: of_int_le_iff)
  then have "(of_int m :: rat) \<le> 9007199254740992"
    by simp
  then have "of_int m * ulp \<le> 9007199254740992 * ulp"
    using pos by (simp only: mult_le_cancel_right_pos)
  also have "\<dots> = 2 powi (e + 1)"
    by (simp only: split)
  also have "\<dots> < 2 powi 1024"
    using assms(4) by (intro power_int_strict_increasing) simp_all
  finally have "\<not> 2 powi 1024 \<le> of_int m * ulp"
    by simp
  then show ?thesis
    using x0 unfolding round_double_def Let_def e ulp_def [symmetric] m_def [symmetric]
    by (simp del: power_int_numeral)
qed

lemma round_half_even_up:
  assumes "of_int f + 1 / 2 < q" and "q < of_int f + 1"
  shows "round_half_even q = f + 1"
proof -
  from assms have "\<lfloor>q\<rfloor> = f"
    by (intro floor_unique) simp_all
  with assms(1) show ?thesis
    by (simp add: round_half_even_def Let_def)
qed

text \<open>
  An amount of minor units below \<open>100 * 2^46\<close>, divided by 100 in double arithmetic
  and printed by \<^verbatim>\<open>toFixed(2)\<close>, is the amount with two decimals: the rounding of the
  quotient is too small to reach the next hundredth.
\<close>

lemma toFixed2_minor_units:
  assumes "\<bar>n\<bar> < 100 * 2 ^ 46"
  shows "toFixed2 env (div100 (round_double (of_int n))) = two_decimals n"
proof -
  from assms have "\<bar>n\<bar> < 2 ^ 53"
    by simp
  then have exact: "round_double (of_int n) = Num (of_int n)"
    by (rule round_double_int)
  show ?thesis
  proof (cases "n = 0")
    case True
    have "\<lfloor>(1::rat) / 2\<rfloor> = 0"
      by (rule floor_unique) simp_all
    with True show ?thesis
      by (simp add: exact round_double_def two_decimals_def)
  next
    case False
    define x :: rat where "x = of_int n / 100"
    define a :: rat where "a = of_int \<bar>n\<bar> / 100"
    have ax: "\<bar>x\<bar> = a"
      by (simp add: x_def a_def)
    have x0: "x \<noteq> 0"
      using False by (simp add: x_def)
    from assms have "(of_int \<bar>n\<bar> :: rat) < of_int (100 * 2 ^ 46)"
      by (simp only: of_int_less_iff)
    then have a46: "a < 70368744177664"
      by (simp add: a_def)
    then have below: "\<bar>x\<bar> < 2 powi 46"
      by (simp add: ax)
    from round_double_close [OF x0 below] obtain r where
      r0: "0 \<le> r" and r1: "\<bar>r - a\<bar> \<le> 1 / 256"
      and rd: "round_double x = Num (if x < 0 then - r else r)"
      unfolding ax by blast
    from r1 have rlo: "a - 1 / 256 \<le> r" and rhi: "r \<le> a + 1 / 256"
      by (simp_all only: abs_le_iff) linarith+
    from False have "1 \<le> \<bar>n\<bar>"
      by simp
    then have "(1::rat) \<le> of_int \<bar>n\<bar>"
      by (simp only: of_int_1_le_iff)
    then have big: "1 / 100 \<le> a"
      by (simp add: a_def)
    with rlo have rpos: "0 < r"
      by linarith
    have neg: "((if x < 0 then - r else r) < 0) = (n < 0)"
      using rpos by (simp add: x_def)
    have mag: "\<bar>if x < 0 then - r else r\<bar> = r"
      using rpos by simp
    from rhi a46 have "r < 70368744177665"
      by linarith
    then have small: "\<not> 10 ^ 21 \<le> r"
      by simp
    have a100: "a * 100 = of_int \<bar>n\<bar>"
      by (simp add: a_def)
    from rlo rhi a100 have "of_int \<bar>n\<bar> \<le> r * 100 + 1 / 2"
      and "r * 100 + 1 / 2 < of_int \<bar>n\<bar> + 1"
      by linarith+
    then have fl: "\<lfloor>r * 100 + 1 / 2\<rfloor> = \<bar>n\<bar>"
      by (rule floor_unique)
    have "div100 (round_double (of_int n)) = round_double x"
      by (simp only: exact div100.simps x_def)
    then have "toFixed2 env (div100 (round_double (of_int n))) =
        toFixed2 env (Num (if x < 0 then - r else r))"
      by (simp only: rd)
    also have "\<dots> = two_decimals n"
      by (simp only: toFixed2.simps mag small if_False fl neg Let_def two_decimals_def)
    finally show ?thesis .
  qed
qed

subsection \<open>The event normalizer\<close>

text \<open>
  On every value but \<^verbatim>\<open>undefined\<close> and \<^verbatim>\<open>null\<close> the normalizer returns a record, and
  each field is the first match among its candidates.
\<close>

lemma paymentData_eq:
  assumes "\<not> nullish ed"
  shows "paymentData ed = Inr
    \<lparr>payment_intent_id = first_match [nested ed ''id'', nested ed ''payment_intent''],
     amount = first_match [nested ed ''amount'', nested ed ''amount_due''],
     currency = nested ed ''currency'',
     failure_code =
       first_match [nested ed ''failure_code'', nested (nested ed ''last_payment_error'') ''code''],
     failure_message =
       first_match [nested ed ''failure_message'',
                    nested (nested ed ''last_payment_error'') ''message''],
     payment_method_type =
       first_match [first_elem (nested ed ''payment_method_types''),
                    nested (nested ed ''payment_method'') ''type'',
                    nested (nested ed ''source'') ''type''],
     created = nested ed ''created'',
     customer_name = JStr '''',
     customer_email = JStr ''''\<rparr>"
  unfolding paymentData_def
  by (simp add: get_prop_total [OF assms] opt_prop_nested opt_index0_first_elem or_else_def)

lemma paymentData_nullish:
  "nullish ed \<Longrightarrow> \<exists>e. paymentData ed = Inl e"
  by (cases ed) (simp_all add: paymentData_def)

text \<open>
  Claim C4. For every event object the normalizer resolves each field by first match
  over the shape variants, a match being a value that is there and truthy:
  \<^verbatim>\<open>payment_intent_id\<close> is the object's own \<^verbatim>\<open>id\<close>, else its \<^verbatim>\<open>payment_intent\<close>;
  \<^verbatim>\<open>amount\<close> is \<^verbatim>\<open>amount\<close>, else \<^verbatim>\<open>amount_due\<close>; the failure code and message are the
  direct fields, else the \<^verbatim>\<open>code\<close> and \<^verbatim>\<open>message\<close> of \<^verbatim>\<open>last_payment_error\<close>; the payment
  method type is the first of \<^verbatim>\<open>payment_method_types[0]\<close>, \<^verbatim>\<open>payment_method.type\<close> and
  \<^verbatim>\<open>source.type\<close>.
\<close>

theorem paymentData_first_match:
  "\<exists>pd. paymentData (JObj fs) = Inr pd \<and>
     payment_intent_id pd = first_match [own_prop fs ''id'', own_prop fs ''payment_intent''] \<and>
     amount pd = first_match [own_prop fs ''amount'', own_prop fs ''amount_due''] \<and>
     failure_code pd =
       first_match [own_prop fs ''failure_code'',
                    nested (own_prop fs ''last_payment_error'') ''code''] \<and>
     failure_message pd =
       first_match [own_prop fs ''failure_message'',
                    nested (own_prop fs ''last_payment_error'') ''message''] \<and>
     payment_method_type pd =
       first_match [first_elem (own_prop fs ''payment_method_types''),
                    nested (own_prop fs ''payment_method'') ''type'',
                    nested (own_prop fs ''source'') ''type'']"
proof -
  have "\<not> nullish (JObj fs)"
    by simp
  from paymentData_eq [OF this] show ?thesis
    by simp
qed

text \<open>
  Claim C5. The normalizer never raises on an event object, whatever fields it has or
  lacks (nor on any other value but \<^verbatim>\<open>undefined\<close> and \<^verbatim>\<open>null\<close>). The customer name and
  email start as the empty string, and a field none of whose candidates is there
  resolves to \<^verbatim>\<open>undefined\<close>.
\<close>

theorem paymentData_never_raises:
  "(\<not> nullish eventData \<longrightarrow> (\<exists>pd. paymentData eventData = Inr pd)) \<and>
   (\<exists>pd. paymentData (JObj fs) = Inr pd \<and>
      customer_name pd = JStr '''' \<and> customer_email pd = JStr '''' \<and>
      (map_of fs ''id'' = None \<and> map_of fs ''payment_intent'' = None \<longrightarrow>
         payment_intent_id pd = JUndefined) \<and>
      (map_of fs ''amount'' = None \<and> map_of fs ''amount_due'' = None \<longrightarrow>
         amount pd = JUndefined) \<and>
      (map_of fs ''currency'' = None \<longrightarrow> currency pd = JUndefined) \<and>
      (map_of fs ''failure_code'' = None \<and> map_of fs ''last_payment_error'' = None \<longrightarrow>
         failure_code pd = JUndefined) \<and>
      (map_of fs ''failure_message'' = None \<and> map_of fs ''last_payment_error'' = None \<longrightarrow>
         failure_message pd = JUndefined) \<and>
      (map_of fs ''payment_method_types'' = None \<and> map_of fs ''payment_method'' = None \<and>
       map_of fs ''source'' = None \<longrightarrow> payment_method_type pd = JUndefined) \<and>
      (map_of fs ''created'' = None \<longrightarrow> created pd = JUndefined))"
proof (intro conjI impI)
  assume "\<not> nullish eventData"
  from paymentData_eq [OF this] show "\<exists>pd. paymentData eventData = Inr pd"
    by blast
next
  have "\<not> nullish (JObj fs)"
    by simp
  from paymentData_eq [OF this] show "\<exists>pd. paymentData (JObj fs) = Inr pd \<and>
      customer_name pd = JStr '''' \<and> customer_email pd = JStr '''' \<and>
      (map_of fs ''id'' = None \<and> map_of fs ''payment_intent'' = None \<longrightarrow>
         payment_intent_id pd = JUndefined) \<and>
      (map_of fs ''amount'' = None \<and> map_of fs ''amount_due'' = None \<longrightarrow>
         amount pd = JUndefined) \<and>
      (map_of fs ''currency'' = None \<longrightarrow> currency pd = JUndefined) \<and>
      (map_of fs ''failure_code'' = None \<and> map_of fs ''last_payment_error'' = None \<longrightarrow>
         failure_code pd = JUndefined) \<and>
      (map_of fs ''failure_message'' = None \<and> map_of fs ''last_payment_error'' = None \<longrightarrow>
         failure_message pd = JUndefined) \<and>
      (map_of fs ''payment_method_types'' = None \<and> map_of fs ''payment_method'' = None \<and>
       map_of fs ''source'' = None \<longrightarrow> payment_method_type pd = JUndefined) \<and>
      (map_of fs ''created'' = None \<longrightarrow> created pd = JUndefined)"
    by (simp add: own_prop_absent)
qed

theorem paymentData_never_raises_witness:
  "\<not> nullish (JObj [(''id'', JStr ''in_1'')]) \<and>
   map_of [(''id'', JStr ''in_1'')] ''amount'' = None \<and>
   map_of [(''id'', JStr ''in_1'')] ''amount_due'' = None \<and>
   map_of [(''id'', JStr ''in_1'')] ''currency'' = None \<and>
   map_of [(''id'', JStr ''in_1'')] ''failure_code'' = None \<and>
   map_of [(''id'', JStr ''in_1'')] ''failure_message'' = None \<and>
   map_of [(''id'', JStr ''in_1'')] ''last_payment_error'' = None \<and>
   map_of [(''id'', JStr ''in_1'')] ''payment_method_types'' = None \<and>
   map_of [(''id'', JStr ''in_1'')] ''payment_method'' = None \<and>
   map_of [(''id'', JStr ''in_1'')] ''source'' = None \<and>
   map_of [(''id'', JStr ''in_1'')] ''created'' = None \<and>
   (\<exists>pd. paymentData (JObj [(''id'', JStr ''in_1'')]) = Inr pd \<and>
      customer_name pd = JStr '''' \<and> customer_email pd = JStr '''' \<and>
      amount pd = JUndefined \<and> currency pd = JUndefined \<and> failure_code pd = JUndefined \<and>
      failure_message pd = JUndefined \<and> payment_method_type pd = JUndefined \<and>
      created pd = JUndefined)"
  using paymentData_never_raises [of "JObj [(''id'', JStr ''in_1'')]" "[(''id'', JStr ''in_1'')]"]
  by simp

subsection \<open>The log viewer and the health check\<close>

text \<open>
  Claim C8. For every state of the activity log, \<^verbatim>\<open>GET /logs\<close> answers with the first
  50 entries of the newest-first sequence, all of them when there are fewer, in their
  order, and with a total equal to the length of the whole sequence.
\<close>

theorem logs_returns_recent:
  "status (logs st) = 200 \<and>
   json_field (logs st) ''total'' = Some (JNum (int (length (recentLogs st)))) \<and>
   (\<exists>es. json_field (logs st) ''logs'' = Some (JArr es) \<and>
      es = map entry_json (take 50 (recentLogs st)) \<and>
      length es = min 50 (length (recentLogs st)) \<and>
      (\<forall>i. i < length es \<longrightarrow> es ! i = entry_json (recentLogs st ! i)))"
  by (simp add: logs_def json_field_def)

theorem logs_returns_recent_witness:
  "(0::nat) < length (map entry_json (take 50 (recentLogs (log example_env ''up'' ''info'' init_state)))) \<and>
   json_field (logs (log example_env ''up'' ''info'' init_state)) ''total'' = Some (JNum 1) \<and>
   json_field (logs (log example_env ''up'' ''info'' init_state)) ''logs'' =
     Some (JArr [JObj [(''timestamp'', JStr ''2025-01-01T00:00:00.000Z''),
                       (''level'', JStr ''info''), (''message'', JStr ''up'')]])"
proof -
  have st: "recentLogs (log example_env ''up'' ''info'' init_state) =
      [\<lparr>timestamp = ''2025-01-01T00:00:00.000Z'', level = ''info'', message = ''up''\<rparr>]"
    by (simp add: log_def init_state_def example_env_def Let_def)
  from logs_returns_recent [of "log example_env ''up'' ''info'' init_state"]
  show ?thesis
    by (simp add: st entry_json_def)
qed

text \<open>
  Claim C10. \<^verbatim>\<open>GET /health\<close> computes \<^verbatim>\<open>gmail_connected\<close> from \<^verbatim>\<open>GMAIL_CLIENT_ID\<close> and
  \<^verbatim>\<open>GMAIL_REFRESH_TOKEN\<close> alone: it is true exactly when both are set (to a string that
  is not empty), whatever \<^verbatim>\<open>GMAIL_CLIENT_SECRET\<close> is, so also when the secret is unset,
  and the whole answer is the same for every value of the secret.
  \<^verbatim>\<open>stripe_connected\<close> is true exactly when \<^verbatim>\<open>STRIPE_SECRET_KEY\<close> is set.
\<close>

theorem health_flags:
  "json_field (fst (health env st)) ''gmail_connected'' =
     Some (JBool (is_set (GMAIL_CLIENT_ID env) \<and> is_set (GMAIL_REFRESH_TOKEN env))) \<and>
   json_field (fst (health env st)) ''stripe_connected'' =
     Some (JBool (is_set (STRIPE_SECRET_KEY env))) \<and>
   health (env\<lparr>GMAIL_CLIENT_SECRET := secret\<rparr>) st = health env st \<and>
   (is_set (GMAIL_CLIENT_ID env) \<and> is_set (GMAIL_REFRESH_TOKEN env) \<longrightarrow>
      json_field (fst (health (env\<lparr>GMAIL_CLIENT_SECRET := None\<rparr>) st)) ''gmail_connected'' =
        Some (JBool True))"
  by (simp add: health_def json_field_def)

theorem health_flags_witness:
  "is_set (GMAIL_CLIENT_ID example_env) \<and> is_set (GMAIL_REFRESH_TOKEN example_env) \<and>
   GMAIL_CLIENT_SECRET example_env = None \<and>
   json_field (fst (health example_env init_state)) ''gmail_connected'' = Some (JBool True) \<and>
   json_field (fst (health example_env init_state)) ''stripe_connected'' = Some (JBool True)"
proof -
  have set: "is_set (GMAIL_CLIENT_ID example_env)" "is_set (GMAIL_REFRESH_TOKEN example_env)"
    "is_set (STRIPE_SECRET_KEY example_env)" "GMAIL_CLIENT_SECRET example_env = None"
    by (simp_all add: example_env_def is_set_def)
  from health_flags [of example_env init_state None] set show ?thesis
    by simp
qed

subsection \<open>The alert sender\<close>

lemma and_then_eq_Inr: "and_then r f = Inr y \<longleftrightarrow> (\<exists>x. r = Inr x \<and> f x = Inr y)"
  by (cases r) simp_all

lemma and_then_eq_Inl:
  "and_then r f = Inl e \<longleftrightarrow> r = Inl e \<or> (\<exists>x. r = Inr x \<and> f x = Inl e)"
  by (cases r) simp_all

lemma trim_margins:
  assumes "x \<noteq> []" and "\<not> is_space (hd x)" and "\<not> is_space (last x)"
    and "\<forall>c\<in>set pre. is_space c" and "\<forall>c\<in>set post. is_space c"
  shows "trim (pre @ x @ post) = x"
proof -
  from assms(1,2) have front: "dropWhile is_space (x @ post) = x @ post"
    by (cases x) simp_all
  from assms(1,3) have behind: "dropWhile is_space (rev x) = rev x"
    by (cases "rev x") (simp_all add: hd_rev [symmetric] del: hd_rev)
  have "dropWhile is_space (pre @ x @ post) = x @ post"
    using assms(4) front by (simp add: dropWhile_append2)
  moreover have "dropWhile is_space (rev post @ rev x) = rev x"
    using assms(5) behind dropWhile_append2 [of "rev post" is_space "rev x"] by simp
  ultimately show ?thesis
    by (simp add: trim_def)
qed

text \<open>Trimming the template leaves the text between its first and last line feed.\<close>

lemma trim_template: "trim (template v) = alert_text v"
proof -
  have "template v = nl @ alert_text v @ nl @ ''    ''"
    by (simp add: template_def alert_text_def)
  moreover have "trim (nl @ alert_text v @ nl @ ''    '') = alert_text v"
  proof (rule trim_margins)
    show "alert_text v \<noteq> []"
      by (simp add: alert_text_def)
    show "\<not> is_space (hd (alert_text v))"
      by (simp add: alert_text_def is_space_def)
    show "\<not> is_space (last (alert_text v))"
      by (simp add: alert_text_def is_space_def)
    show "\<forall>c\<in>set nl. is_space c"
      by (simp add: nl_def is_space_def)
    show "\<forall>c\<in>set (nl @ ''    ''). is_space c"
      by (simp add: nl_def is_space_def)
  qed
  ultimately show ?thesis
    by (simp only:)
qed

lemma to_str_primitive: "primitive v \<Longrightarrow> \<exists>s. to_str env v = Inr s"
  by (cases v) simp_all

lemma to_number_primitive: "primitive v \<Longrightarrow> \<exists>x. to_number env v = Inr x"
  by (cases v) simp_all

lemma interp_primitive: "primitive v \<Longrightarrow> \<exists>s. interp env v d = Inr s"
  by (cases "truthy v") (simp_all add: interp_def to_str_primitive)

lemma interp_text: "interp env (JStr s) d = Inr (if s = [] then d else s)"
  by (simp add: interp_def or_else_def)

text \<open>In a currency of ASCII characters the letters are replaced, and nothing else.\<close>

lemma currency_shown_ascii:
  "list_all (\<lambda>c. (of_char c :: nat) < 128) c \<Longrightarrow>
   currency_shown env (JStr c) = (if c = [] then ''USD'' else map upper_char c)"
  by (simp add: toUpperCase_def)

lemma currency_interp:
  "and_then (currency_upper env v) (\<lambda>c. interp env c ''USD'') = Inr cur \<Longrightarrow>
   cur = currency_shown env v"
  by (cases v) (auto simp add: interp_def or_else_def split: if_splits)

lemma currency_interp_text:
  "text_or_absent v \<Longrightarrow>
   and_then (currency_upper env v) (\<lambda>c. interp env c ''USD'') = Inr (currency_shown env v)"
  by (cases v) (simp_all add: interp_def or_else_def)

lemma emailBody_Inr:
  assumes "emailBody env pd = Inr b"
  shows "\<exists>name email a meth code msg pid secs.
    interp env (customer_name pd) ''Unknown'' = Inr name \<and>
    interp env (customer_email pd) ''Not provided'' = Inr email \<and>
    to_number env (amount pd) = Inr a \<and>
    interp env (payment_method_type pd) ''Unknown'' = Inr meth \<and>
    interp env (failure_code pd) ''Not provided'' = Inr code \<and>
    interp env (failure_message pd) ''No details provided'' = Inr msg \<and>
    to_str env (payment_intent_id pd) = Inr pid \<and>
    to_number env (created pd) = Inr secs \<and>
    b = alert_text
      \<lparr>customer_shown = name, email_shown = email,
       amount_shown = toFixed2 env (div100 a),
       currency_text = currency_shown env (currency pd),
       method_shown = meth, code_shown = code, message_shown = msg, id_shown = pid,
       time_shown = toLocaleString env (times1000 secs), link_id = pid\<rparr>"
proof -
  from assms obtain name email a cur meth code msg pid secs pid2 where
    parts: "interp env (customer_name pd) ''Unknown'' = Inr name"
      "interp env (customer_email pd) ''Not provided'' = Inr email"
      "to_number env (amount pd) = Inr a"
      "and_then (currency_upper env (currency pd)) (\<lambda>c. interp env c ''USD'') = Inr cur"
      "interp env (payment_method_type pd) ''Unknown'' = Inr meth"
      "interp env (failure_code pd) ''Not provided'' = Inr code"
      "interp env (failure_message pd) ''No details provided'' = Inr msg"
      "to_str env (payment_intent_id pd) = Inr pid"
      "to_number env (created pd) = Inr secs"
      "to_str env (payment_intent_id pd) = Inr pid2"
    and b: "b = trim (template
      \<lparr>customer_shown = name, email_shown = email,
       amount_shown = toFixed2 env (div100 a), currency_text = cur,
       method_shown = meth, code_shown = code, message_shown = msg, id_shown = pid,
       time_shown = toLocaleString env (times1000 secs), link_id = pid2\<rparr>)"
    unfolding emailBody_def and_then_eq_Inr by (elim exE conjE) (simp only: sum.inject, blast)
  from parts(8,10) have "pid2 = pid"
    by simp
  moreover from parts(4) have "cur = currency_shown env (currency pd)"
    by (rule currency_interp)
  ultimately have "b = alert_text
      \<lparr>customer_shown = name, email_shown = email,
       amount_shown = toFixed2 env (div100 a),
       currency_text = currency_shown env (currency pd),
       method_shown = meth, code_shown = code, message_shown = msg, id_shown = pid,
       time_shown = toLocaleString env (times1000 secs), link_id = pid\<rparr>"
    using b by (simp only: trim_template)
  with parts show ?thesis
    by blast
qed

lemma emailBody_plain:
  assumes "plain_record pd"
  shows "\<exists>b. emailBody env pd = Inr b"
proof -
  from assms obtain name email a meth code msg pid secs where
    "interp env (customer_name pd) ''Unknown'' = Inr name"
    "interp env (customer_email pd) ''Not provided'' = Inr email"
    "to_number env (amount pd) = Inr a"
    "interp env (payment_method_type pd) ''Unknown'' = Inr meth"
    "interp env (failure_code pd) ''Not provided'' = Inr code"
    "interp env (failure_message pd) ''No details provided'' = Inr msg"
    "to_str env (payment_intent_id pd) = Inr pid"
    "to_number env (created pd) = Inr secs"
    unfolding plain_record_def
    by (metis interp_primitive to_str_primitive to_number_primitive)
  moreover from assms have "and_then (currency_upper env (currency pd)) (\<lambda>c. interp env c ''USD'') =
      Inr (currency_shown env (currency pd))"
    by (simp add: plain_record_def currency_interp_text)
  ultimately show ?thesis
    by (simp add: emailBody_def)
qed

lemma subject_plain: "primitive (customer_name pd) \<Longrightarrow> \<exists>s. subject env pd = Inr s"
  using interp_primitive [of "customer_name pd" env "''Unknown Customer''"]
  by (auto simp add: subject_def)

lemma sublist_middle: "sublist (p @ x @ s) y \<Longrightarrow> sublist x y"
proof -
  assume "sublist (p @ x @ s) y"
  then obtain ps ss where "y = ps @ (p @ x @ s) @ ss"
    by (auto simp add: sublist_def)
  then have "y = (ps @ p) @ x @ (s @ ss)"
    by simp
  then show ?thesis
    unfolding sublist_def by blast
qed

lemma alert_text_customer:
  "sublist (nl @ ''Customer: '' @ customer_shown v @ nl) (alert_text v)"
proof -
  have "alert_text v =
      (''A payment failure has been detected in your Stripe account:'' @ nl) @
      (nl @ ''Customer: '' @ customer_shown v @ nl) @
      (''Customer Email: '' @ email_shown v @ nl @
       ''Amount: $'' @ amount_shown v @ '' '' @ currency_text v @ nl @
       ''Payment Method: '' @ method_shown v @ nl @
       ''Failure Code: '' @ code_shown v @ nl @
       ''Failure Message: '' @ message_shown v @ nl @
       ''Payment Intent ID: '' @ id_shown v @ nl @
       ''Timestamp: '' @ time_shown v @ nl @
       nl @
       ''Please review this failed payment in your Stripe dashboard:'' @ nl @
       ''https://dashboard.stripe.com/payments/'' @ link_id v @ nl @
       nl @
       ''---'' @ nl @
       ''Automated alert from Stripe Payment Monitor'')"
    by (simp add: alert_text_def)
  then show ?thesis
    unfolding sublist_def by blast
qed

lemma alert_text_amount:
  "sublist (nl @ ''Amount: $'' @ amount_shown v @ '' '' @ currency_text v @ nl) (alert_text v)"
proof -
  have "alert_text v =
      (''A payment failure has been detected in your Stripe account:'' @ nl @
       nl @
       ''Customer: '' @ customer_shown v @ nl @
       ''Customer Email: '' @ email_shown v) @
      (nl @ ''Amount: $'' @ amount_shown v @ '' '' @ currency_text v @ nl) @
      (''Payment Method: '' @ method_shown v @ nl @
       ''Failure Code: '' @ code_shown v @ nl @
       ''Failure Message: '' @ message_shown v @ nl @
       ''Payment Intent ID: '' @ id_shown v @ nl @
       ''Timestamp: '' @ time_shown v @ nl @
       nl @
       ''Please review this failed payment in your Stripe dashboard:'' @ nl @
       ''https://dashboard.stripe.com/payments/'' @ link_id v @ nl @
       nl @
       ''---'' @ nl @
       ''Automated alert from Stripe Payment Monitor'')"
    by (simp add: alert_text_def)
  then show ?thesis
    unfolding sublist_def by blast
qed

text \<open>
  Claim C6, for amounts below \<open>100 * 2^46\<close>. Take a record whose amount is an integer
  of minor units of magnitude below \<open>100 * 2^46 = 7036874417766400\<close> and whose customer
  name is a string. If its other fields are primitive values, the body of the email is
  rendered. Every body rendered for it has the line \<^verbatim>\<open>Amount: $\<close> followed by the
  amount divided by 100 with two decimals, a space and the currency in upper case, or
  \<^verbatim>\<open>USD\<close> when there is no currency, and the line \<^verbatim>\<open>Customer: \<close> followed by the name,
  or by \<^verbatim>\<open>Unknown\<close> when the name is empty. The division is the one of the doubles:
  below the bound its rounding does not reach the next hundredth. Further down the
  theorem is applied to the example of the claim: the payment intent with amount 1999,
  currency \<^verbatim>\<open>usd\<close> and no customer reference gives a body that contains
  \<^verbatim>\<open>Amount: $19.99 USD\<close> and \<^verbatim>\<open>Customer: Unknown\<close>. Beyond the bound the hundredths that
  are printed can differ from those of the amount, as the run at \<open>9007199254740893\<close>
  shows there.
\<close>

theorem emailBody_amount_and_customer:
  assumes "amount pd = JNum n" and "\<bar>n\<bar> < 100 * 2 ^ 46"
    and "customer_name pd = JStr name"
  shows "(plain_record pd \<longrightarrow> (\<exists>b. emailBody env pd = Inr b)) \<and>
         (\<forall>b. emailBody env pd = Inr b \<longrightarrow>
            sublist (nl @ ''Amount: $'' @ two_decimals n @ '' '' @
                     currency_shown env (currency pd) @ nl) b \<and>
            sublist (nl @ ''Customer: '' @ (if name = [] then ''Unknown'' else name) @ nl) b)"
proof (intro conjI allI impI)
  assume "plain_record pd"
  then show "\<exists>b. emailBody env pd = Inr b"
    by (rule emailBody_plain)
next
  fix b
  assume rendered: "emailBody env pd = Inr b"
  from emailBody_Inr [OF rendered] obtain shown email a meth code msg pid secs where
    name: "interp env (customer_name pd) ''Unknown'' = Inr shown"
    and a: "to_number env (amount pd) = Inr a"
    and b: "b = alert_text
      \<lparr>customer_shown = shown, email_shown = email,
       amount_shown = toFixed2 env (div100 a),
       currency_text = currency_shown env (currency pd),
       method_shown = meth, code_shown = code, message_shown = msg, id_shown = pid,
       time_shown = toLocaleString env (times1000 secs), link_id = pid\<rparr>"
    by blast
  let ?v = "\<lparr>customer_shown = shown, email_shown = email,
       amount_shown = toFixed2 env (div100 a),
       currency_text = currency_shown env (currency pd),
       method_shown = meth, code_shown = code, message_shown = msg, id_shown = pid,
       time_shown = toLocaleString env (times1000 secs), link_id = pid\<rparr>"
  from name assms(3) have shown: "shown = (if name = [] then ''Unknown'' else name)"
    by (simp add: interp_text)
  from a assms(1) have "a = round_double (of_int n)"
    by simp
  then have money: "toFixed2 env (div100 a) = two_decimals n"
    using assms(2) by (simp only: toFixed2_minor_units)
  from alert_text_amount [of ?v]
  show "sublist (nl @ ''Amount: $'' @ two_decimals n @ '' '' @
      currency_shown env (currency pd) @ nl) b"
    by (simp add: b money)
  from alert_text_customer [of ?v]
  show "sublist (nl @ ''Customer: '' @ (if name = [] then ''Unknown'' else name) @ nl) b"
    by (simp only: b shown alert_values.simps)
qed

lemma log_traces [simp]:
  "alerts (log env m l st) = alerts st"
  "outbox (log env m l st) = outbox st"
  "lookups (log env m l st) = lookups st"
  "console (log env m l st) = console st @ [''['' @ now env (ticks st) @ ''] '' @ toUpperCase env l @ '': '' @ m]"
  by (simp_all add: log_def Let_def)

lemma newest_log:
  "recentLogs (log env m l st) ! 0 = \<lparr>timestamp = now env (ticks st), level = l, message = m\<rparr>"
  by (cases "recentLogs st") (simp_all add: log_def Let_def)

lemma sendEmailAlert_unrendered:
  assumes "and_then (subject env pd) (\<lambda>subj. and_then (emailBody env pd) (\<lambda>body.
             Inr (encodedMessage (mime_message env subj body)))) = Inl e"
  shows "sendEmailAlert env pd st =
    (False, log env (''Failed to send email alert: '' @ err_message e) ''error''
              (st\<lparr>alerts := alerts st @ [pd]\<rparr>))"
  using assms by (simp add: sendEmailAlert_def Let_def)

lemma sendEmailAlert_rendered:
  assumes "subject env pd = Inr subj" and "emailBody env pd = Inr b"
    and "to_str env (payment_intent_id pd) = Inr pid"
  shows "sendEmailAlert env pd st =
    (case gmail_send env (length (outbox st)) (encodedMessage (mime_message env subj b)) of
       Some e \<Rightarrow>
         (False, log env (''Failed to send email alert: '' @ err_message e) ''error''
                   (st\<lparr>alerts := alerts st @ [pd],
                       outbox := outbox st @ [encodedMessage (mime_message env subj b)]\<rparr>))
     | None \<Rightarrow>
         (True, log env (''Email alert sent successfully for payment '' @ pid) ''info''
                  (st\<lparr>alerts := alerts st @ [pd],
                      outbox := outbox st @ [encodedMessage (mime_message env subj b)]\<rparr>)))"
  using assms by (simp add: sendEmailAlert_def Let_def split: option.splits)

lemma rendered_plain:
  assumes "plain_record pd"
  shows "\<exists>subj b pid. subject env pd = Inr subj \<and> emailBody env pd = Inr b \<and>
    to_str env (payment_intent_id pd) = Inr pid"
proof -
  from assms have "primitive (customer_name pd)" and "primitive (payment_intent_id pd)"
    by (simp_all add: plain_record_def)
  with emailBody_plain [OF assms, of env] show ?thesis
    by (metis subject_plain to_str_primitive)
qed

text \<open>
  Claim C7. \<^verbatim>\<open>sendEmailAlert\<close> always returns a boolean and a state, so nothing is thrown
  past it, and it logs exactly once. It submits at most one message and never a second
  one after a rejection. Whenever the subject and the body can be rendered, which is so
  for every record of primitive values, it submits exactly one message, the encoded
  envelope, and the boolean tells whether the mail API accepted it. When it returns
  \<^verbatim>\<open>true\<close> the newest log entry is the success message at level \<^verbatim>\<open>info\<close>; when it returns
  \<^verbatim>\<open>false\<close> the newest log entry is the message of the error at level \<^verbatim>\<open>error\<close>, and that
  error is the one of the mail API when the submission was rejected.
\<close>

theorem sendEmailAlert_single_attempt:
  "(plain_record pd \<longrightarrow> (\<exists>subj b. subject env pd = Inr subj \<and> emailBody env pd = Inr b)) \<and>
   (\<exists>ok st'. sendEmailAlert env pd st = (ok, st') \<and>
     alerts st' = alerts st @ [pd] \<and>
     ticks st' = Suc (ticks st) \<and>
     length (console st') = Suc (length (console st)) \<and>
     (outbox st' = outbox st \<or> (\<exists>raw. outbox st' = outbox st @ [raw])) \<and>
     (ok \<longrightarrow> (\<exists>raw pid. outbox st' = outbox st @ [raw] \<and>
        gmail_send env (length (outbox st)) raw = None \<and>
        to_str env (payment_intent_id pd) = Inr pid \<and>
        recentLogs st' ! 0 = \<lparr>timestamp = now env (ticks st), level = ''info'',
          message = ''Email alert sent successfully for payment '' @ pid\<rparr>)) \<and>
     (\<not> ok \<longrightarrow> (\<exists>e. recentLogs st' ! 0 = \<lparr>timestamp = now env (ticks st), level = ''error'',
          message = ''Failed to send email alert: '' @ err_message e\<rparr>)) \<and>
     (\<forall>subj b. subject env pd = Inr subj \<and> emailBody env pd = Inr b \<longrightarrow>
        outbox st' = outbox st @ [encodedMessage (mime_message env subj b)] \<and>
        ok = (gmail_send env (length (outbox st)) (encodedMessage (mime_message env subj b)) = None) \<and>
        (\<forall>e. gmail_send env (length (outbox st)) (encodedMessage (mime_message env subj b)) = Some e \<longrightarrow>
           message (recentLogs st' ! 0) = ''Failed to send email alert: '' @ err_message e)))"
proof (rule conjI)
  show "plain_record pd \<longrightarrow> (\<exists>subj b. subject env pd = Inr subj \<and> emailBody env pd = Inr b)"
    using rendered_plain [of pd env] by blast
next
  show "\<exists>ok st'. sendEmailAlert env pd st = (ok, st') \<and>
     alerts st' = alerts st @ [pd] \<and>
     ticks st' = Suc (ticks st) \<and>
     length (console st') = Suc (length (console st)) \<and>
     (outbox st' = outbox st \<or> (\<exists>raw. outbox st' = outbox st @ [raw])) \<and>
     (ok \<longrightarrow> (\<exists>raw pid. outbox st' = outbox st @ [raw] \<and>
        gmail_send env (length (outbox st)) raw = None \<and>
        to_str env (payment_intent_id pd) = Inr pid \<and>
        recentLogs st' ! 0 = \<lparr>timestamp = now env (ticks st), level = ''info'',
          message = ''Email alert sent successfully for payment '' @ pid\<rparr>)) \<and>
     (\<not> ok \<longrightarrow> (\<exists>e. recentLogs st' ! 0 = \<lparr>timestamp = now env (ticks st), level = ''error'',
          message = ''Failed to send email alert: '' @ err_message e\<rparr>)) \<and>
     (\<forall>subj b. subject env pd = Inr subj \<and> emailBody env pd = Inr b \<longrightarrow>
        outbox st' = outbox st @ [encodedMessage (mime_message env subj b)] \<and>
        ok = (gmail_send env (length (outbox st)) (encodedMessage (mime_message env subj b)) = None) \<and>
        (\<forall>e. gmail_send env (length (outbox st)) (encodedMessage (mime_message env subj b)) = Some e \<longrightarrow>
           message (recentLogs st' ! 0) = ''Failed to send email alert: '' @ err_message e))"
  proof (cases "and_then (subject env pd) (\<lambda>subj. and_then (emailBody env pd) (\<lambda>body.
             Inr (encodedMessage (mime_message env subj body))))")
    case (Inl e)
    then have "\<not> (subject env pd = Inr subj \<and> emailBody env pd = Inr b)" for subj b
      by auto
    then show ?thesis
      by (simp add: sendEmailAlert_unrendered [OF Inl] newest_log ticks_log) blast
  next
    case (Inr raw)
    then obtain subj b where r: "subject env pd = Inr subj" "emailBody env pd = Inr b"
      and raw: "raw = encodedMessage (mime_message env subj b)"
      by (auto simp add: and_then_eq_Inr)
    from emailBody_Inr [OF r(2)] obtain pid where pid: "to_str env (payment_intent_id pd) = Inr pid"
      by blast
    show ?thesis
    proof (cases "gmail_send env (length (outbox st)) raw")
      case None
      then show ?thesis
        by (simp add: sendEmailAlert_rendered [OF r pid] raw [symmetric] newest_log ticks_log pid r)
          blast
    next
      case (Some e)
      then show ?thesis
        by (simp add: sendEmailAlert_rendered [OF r pid] raw [symmetric] newest_log ticks_log r)
          blast
    qed
  qed
qed

lemma two_decimals_1999: "two_decimals 1999 = ''19.99''"
  by code_simp

lemma upper_usd: "toUpperCase env ''usd'' = ''USD''"
proof -
  have "list_all (\<lambda>c. (of_char c :: nat) < 128) ''usd''"
    by code_simp
  moreover have "map upper_char ''usd'' = ''USD''"
    by code_simp
  ultimately show ?thesis
    by (simp only: toUpperCase_def if_True)
qed

lemma paymentData_example: "paymentData example_intent = Inr example_record"
  by (simp add: example_intent_def example_record_def paymentData_eq own_prop_def)

lemma plain_example: "plain_record example_record"
  by (simp add: plain_record_def example_record_def)

theorem emailBody_amount_and_customer_witness:
  "paymentData example_intent = Inr example_record \<and>
   amount example_record = JNum 1999 \<and> \<bar>1999 :: int\<bar> < 100 * 2 ^ 46 \<and>
   currency example_record = JStr ''usd'' \<and>
   customer_name example_record = JStr '''' \<and>
   plain_record example_record \<and>
   (\<exists>b. emailBody example_env example_record = Inr b \<and>
      sublist ''Amount: $19.99 USD'' b \<and> sublist ''Customer: Unknown'' b)"
proof -
  have fields: "amount example_record = JNum 1999" "currency example_record = JStr ''usd''"
    "customer_name example_record = JStr ''''"
    by (simp_all add: example_record_def)
  have bound: "\<bar>1999 :: int\<bar> < 100 * 2 ^ 46"
    by simp
  from emailBody_amount_and_customer [OF fields(1) bound fields(3), where env = example_env]
    plain_example
  obtain b where b: "emailBody example_env example_record = Inr b"
    and lines: "sublist (nl @ ''Amount: $19.99 USD'' @ nl) b"
      "sublist (nl @ ''Customer: Unknown'' @ nl) b"
    by (auto simp add: fields(2) two_decimals_1999 upper_usd)
  have "sublist ''Amount: $19.99 USD'' b"
    by (rule sublist_middle [OF lines(1)])
  moreover have "sublist ''Customer: Unknown'' b"
    by (rule sublist_middle [OF lines(2)])
  ultimately have "sublist ''Amount: $19.99 USD'' b \<and> sublist ''Customer: Unknown'' b"
    by simp
  with paymentData_example fields bound plain_example b show ?thesis
    by blast
qed

lemma quotient_large:
  "div100 (round_double 9007199254740893) = Num (1441151880758543 / 16)"
proof -
  have "round_double (of_int 9007199254740893) = Num (of_int 9007199254740893)"
    by (rule round_double_int) simp
  then have "div100 (round_double 9007199254740893) = round_double (9007199254740893 / 100)"
    by simp
  also have "\<dots> = Num (of_int (round_half_even (144115188075854288 / 25)) / 64)"
    using round_double_exponent [of 46 "9007199254740893 / 100"] by simp
  also have "round_half_even (144115188075854288 / 25) = 5764607523034172"
    using round_half_even_up [of 5764607523034171 "144115188075854288 / 25"] by simp
  finally show ?thesis
    by simp
qed

lemma shown_large: "toFixed2 env (Num (1441151880758543 / 16)) = ''90071992547408.94''"
  by code_simp

text \<open>
  The run that refutes claim C6 as it is stated, for every amount. The amount
  \<open>9007199254740893\<close> is a double, and the amount divided by 100 with two decimals is
  \<^verbatim>\<open>90071992547408.93\<close>. The quotient of the doubles is \<open>90071992547408.9375\<close>, so the
  body that is rendered has the line \<^verbatim>\<open>Amount: $90071992547408.94 USD\<close> and not the
  line with the amount divided by 100.
\<close>

theorem emailBody_amount_rounded:
  "plain_record large_record \<and>
   amount large_record = JNum 9007199254740893 \<and>
   currency large_record = JStr ''usd'' \<and>
   customer_name large_record = JStr '''' \<and>
   two_decimals 9007199254740893 = ''90071992547408.93'' \<and>
   div100 (round_double 9007199254740893) = Num (1441151880758543 / 16) \<and>
   emailBody example_env large_record = Inr large_body \<and>
   sublist ''Amount: $90071992547408.94 USD'' large_body \<and>
   \<not> sublist ''Amount: $90071992547408.93 USD'' large_body"
proof -
  have plain: "plain_record large_record"
    by (simp add: plain_record_def large_record_def example_record_def)
  have fields: "amount large_record = JNum 9007199254740893"
    "currency large_record = JStr ''usd''" "customer_name large_record = JStr ''''"
    by (simp_all add: large_record_def example_record_def)
  have exact: "two_decimals 9007199254740893 = ''90071992547408.93''"
    by code_simp
  from emailBody_plain [OF plain] obtain b where b: "emailBody example_env large_record = Inr b"
    by blast
  from emailBody_Inr [OF b] obtain name email a meth code msg pid secs where
    shown: "interp example_env (customer_name large_record) ''Unknown'' = Inr name"
      "interp example_env (customer_email large_record) ''Not provided'' = Inr email"
      "to_number example_env (amount large_record) = Inr a"
      "interp example_env (payment_method_type large_record) ''Unknown'' = Inr meth"
      "interp example_env (failure_code large_record) ''Not provided'' = Inr code"
      "interp example_env (failure_message large_record) ''No details provided'' = Inr msg"
      "to_str example_env (payment_intent_id large_record) = Inr pid"
    and body: "b = alert_text
      \<lparr>customer_shown = name, email_shown = email,
       amount_shown = toFixed2 example_env (div100 a),
       currency_text = currency_shown example_env (currency large_record),
       method_shown = meth, code_shown = code, message_shown = msg, id_shown = pid,
       time_shown = toLocaleString example_env (times1000 secs), link_id = pid\<rparr>"
    by blast
  from shown have strings: "name = ''Unknown''" "email = ''Not provided''"
    "a = round_double 9007199254740893" "meth = ''Unknown''" "code = ''Not provided''"
    "msg = ''No details provided''" "pid = ''pi_1''"
    by (simp_all add: large_record_def example_record_def interp_def)
  have money: "toFixed2 example_env (div100 (round_double 9007199254740893)) =
      ''90071992547408.94''"
    by (simp only: quotient_large shown_large)
  have cur: "currency_shown example_env (currency large_record) = ''USD''"
    by (simp add: fields(2) upper_usd)
  have time: "toLocaleString example_env (times1000 secs) = ''Invalid Date''"
    by (simp add: example_env_def)
  have rendered: "emailBody example_env large_record = Inr large_body"
    by (simp only: b body strings money cur time large_body_def)
  have "sublist (nl @ ''Amount: $90071992547408.94 USD'' @ nl) large_body"
    using alert_text_amount
      [of "\<lparr>customer_shown = ''Unknown'', email_shown = ''Not provided'',
        amount_shown = ''90071992547408.94'', currency_text = ''USD'',
        method_shown = ''Unknown'', code_shown = ''Not provided'',
        message_shown = ''No details provided'', id_shown = ''pi_1'',
        time_shown = ''Invalid Date'', link_id = ''pi_1''\<rparr>"]
    by (simp add: large_body_def)
  then have printed: "sublist ''Amount: $90071992547408.94 USD'' large_body"
    by (rule sublist_middle)
  have absent: "\<not> sublist ''Amount: $90071992547408.93 USD'' large_body"
    by code_simp
  from plain fields exact quotient_large rendered printed absent show ?thesis
    by (simp only: simp_thms)
qed

theorem sendEmailAlert_single_attempt_witness:
  "plain_record example_record \<and>
   (\<exists>st'. sendEmailAlert example_env example_record init_state = (True, st') \<and>
      length (outbox st') = 1 \<and>
      recentLogs st' ! 0 = \<lparr>timestamp = ''2025-01-01T00:00:00.000Z'', level = ''info'',
         message = ''Email alert sent successfully for payment pi_1''\<rparr>) \<and>
   (\<exists>st'. sendEmailAlert (bounced_env example_event) example_record init_state = (False, st') \<and>
      length (outbox st') = 1 \<and>
      message (recentLogs st' ! 0) = ''Failed to send email alert: invalid_grant'')"
proof -
  have sent: "\<And>n raw. gmail_send example_env n raw = None"
    and bounced: "\<And>n raw. gmail_send (bounced_env example_event) n raw = Some (ApiError ''invalid_grant'')"
    and clock: "\<And>n. now example_env n = ''2025-01-01T00:00:00.000Z''"
    by (simp_all add: example_env_def bounced_env_def verified_env_def)
  have pid: "\<And>env. to_str env (payment_intent_id example_record) = Inr ''pi_1''"
    by (simp add: example_record_def)
  have start: "outbox init_state = []"
    by (simp add: init_state_def)
  from sendEmailAlert_single_attempt
    [where env = example_env and pd = example_record and st = init_state]
  have first: "\<exists>st'. sendEmailAlert example_env example_record init_state = (True, st') \<and>
      length (outbox st') = 1 \<and>
      recentLogs st' ! 0 = \<lparr>timestamp = ''2025-01-01T00:00:00.000Z'', level = ''info'',
         message = ''Email alert sent successfully for payment pi_1''\<rparr>"
    using plain_example by (auto simp add: sent clock pid start)
  from sendEmailAlert_single_attempt
    [where env = "bounced_env example_event" and pd = example_record and st = init_state]
  have second: "\<exists>st'. sendEmailAlert (bounced_env example_event) example_record init_state = (False, st') \<and>
      length (outbox st') = 1 \<and>
      message (recentLogs st' ! 0) = ''Failed to send email alert: invalid_grant''"
    using plain_example by (auto simp add: bounced start)
  from plain_example first second show ?thesis
    by blast
qed

subsection \<open>The webhook receiver\<close>



lemma sendEmailAlert_logs_once:
  "\<exists>ok m l tr. sendEmailAlert env pd st =
     (ok, log env m l (st\<lparr>alerts := alerts st @ [pd], outbox := tr\<rparr>))"
proof (cases "and_then (subject env pd) (\<lambda>subj. and_then (emailBody env pd) (\<lambda>body.
             Inr (encodedMessage (mime_message env subj body))))")
  case (Inl e)
  have "st\<lparr>alerts := alerts st @ [pd]\<rparr> = st\<lparr>alerts := alerts st @ [pd], outbox := outbox st\<rparr>"
    by simp
  with sendEmailAlert_unrendered [OF Inl, of st] show ?thesis
    by metis
next
  case (Inr raw)
  then obtain subj b where r: "subject env pd = Inr subj" "emailBody env pd = Inr b"
    by (auto simp add: and_then_eq_Inr)
  from emailBody_Inr [OF r(2)] obtain pid where pid: "to_str env (payment_intent_id pd) = Inr pid"
    by blast
  show ?thesis
    unfolding sendEmailAlert_rendered [OF r pid]
    by (cases "gmail_send env (length (outbox st)) (encodedMessage (mime_message env subj b))")
      (simp_all, blast+)
qed

lemma webhook_rejected:
  assumes "constructEvent env (req_body req) (stripe_signature req) (STRIPE_WEBHOOK_SECRET env) = Inl err"
  shows "webhook env req st =
    (\<lparr>status = 400, body = Text (''Webhook Error: '' @ err_message err)\<rparr>,
     log env (''Webhook signature verification failed: '' @ err_message err) ''error'' st)"
  using assms by (simp add: webhook_def)

lemma webhook_verified:
  assumes "constructEvent env (req_body req) (stripe_signature req) (STRIPE_WEBHOOK_SECRET env) = Inr event"
    and "get_prop event ''type'' = Inr (JStr t)"
  shows "webhook env req st =
    (\<lparr>status = 200, body = Json (JObj [(''received'', JBool True), (''type'', JStr t)])\<rparr>,
     handle_failure env event (JStr t) (log env (''Received Stripe webhook event: '' @ t) ''info'' st))"
  using assms by (simp add: webhook_def)

lemma upper_error: "toUpperCase env ''error'' = ''ERROR''"
proof -
  have "list_all (\<lambda>c. (of_char c :: nat) < 128) ''error''"
    by code_simp
  moreover have "map upper_char ''error'' = ''ERROR''"
    by code_simp
  ultimately show ?thesis
    by (simp only: toUpperCase_def if_True)
qed

lemma handle_failure_kind:
  assumes "t \<in> set failure_kinds"
  shows "handle_failure env event (JStr t) st =
    (case process_failure env event t st of
       Inl (e, st') \<Rightarrow>
         log env (''Error processing payment failure event: '' @ err_message e) ''error'' st'
     | Inr st' \<Rightarrow> st')"
  using assms by (simp add: handle_failure_def)





text \<open>
  Claim C1. For every request whose signature is verified and whose event type is one
  of the three failure kinds, the handler answers with status 200 and the body
  \<^verbatim>\<open>{received: true, type: <event type>}\<close>, whatever the event holds and whatever the
  customer lookup and the mail API do: an error of the processing ends in one more log
  entry, not in the response.
\<close>

theorem webhook_acknowledges_failure_event:
  assumes "constructEvent env (req_body req) (stripe_signature req) (STRIPE_WEBHOOK_SECRET env) = Inr event"
    and "get_prop event ''type'' = Inr (JStr t)"
    and "t \<in> set failure_kinds"
  shows "fst (webhook env req st) =
      \<lparr>status = 200, body = Json (JObj [(''received'', JBool True), (''type'', JStr t)])\<rparr> \<and>
    snd (webhook env req st) =
      (case process_failure env event t
              (log env (''Received Stripe webhook event: '' @ t) ''info'' st) of
         Inl (e, st') \<Rightarrow>
           log env (''Error processing payment failure event: '' @ err_message e) ''error'' st'
       | Inr st' \<Rightarrow> st')"
  by (simp add: webhook_verified [OF assms(1,2)] handle_failure_kind [OF assms(3)])


text \<open>
  Claim C2. For every request whose signature verification fails, the handler answers
  with status 400 and a body that ends with the message of the verifier, logs the
  failure at level \<^verbatim>\<open>error\<close>, and sends no email: the alert sender is not called,
  nothing is submitted to the mail API and no customer is looked up.
\<close>

theorem webhook_rejects_bad_signature:
  assumes "constructEvent env (req_body req) (stripe_signature req) (STRIPE_WEBHOOK_SECRET env) = Inl err"
  shows "fst (webhook env req st) =
      \<lparr>status = 400, body = Text (''Webhook Error: '' @ err_message err)\<rparr> \<and>
    recentLogs (snd (webhook env req st)) ! 0 =
      \<lparr>timestamp = now env (ticks st), level = ''error'',
       message = ''Webhook signature verification failed: '' @ err_message err\<rparr> \<and>
    console (snd (webhook env req st)) = console st @
      [''['' @ now env (ticks st) @ ''] ERROR: Webhook signature verification failed: '' @
       err_message err] \<and>
    alerts (snd (webhook env req st)) = alerts st \<and>
    outbox (snd (webhook env req st)) = outbox st \<and>
    lookups (snd (webhook env req st)) = lookups st"
  by (simp add: webhook_rejected [OF assms] newest_log upper_error)

theorem webhook_rejects_bad_signature_witness:
  "constructEvent example_env (req_body example_request) (stripe_signature example_request)
     (STRIPE_WEBHOOK_SECRET example_env) =
     Inl (ApiError ''No stripe-signature header value was provided.'') \<and>
   fst (webhook example_env example_request init_state) =
     \<lparr>status = 400,
      body = Text ''Webhook Error: No stripe-signature header value was provided.''\<rparr> \<and>
   level (recentLogs (snd (webhook example_env example_request init_state)) ! 0) = ''error'' \<and>
   alerts (snd (webhook example_env example_request init_state)) = [] \<and>
   outbox (snd (webhook example_env example_request init_state)) = []"
proof -
  have rejected: "constructEvent example_env (req_body example_request)
      (stripe_signature example_request) (STRIPE_WEBHOOK_SECRET example_env) =
      Inl (ApiError ''No stripe-signature header value was provided.'')"
    by (simp add: example_env_def)
  from webhook_rejects_bad_signature [OF rejected, of init_state] rejected show ?thesis
    by (simp add: init_state_def)
qed

lemma verified_events:
  "constructEvent (verified_env event) b s k = Inr event"
  "constructEvent (bounced_env event) b s k = Inr event"
  "customers_retrieve (verified_env event) r = Inl (ApiError ''No such customer'')"
  "now (verified_env event) n = ''2025-01-01T00:00:00.000Z''"
  by (simp_all add: verified_env_def bounced_env_def example_env_def)

lemma kinds:
  "''payment_intent.payment_failed'' \<in> set failure_kinds"
  "''invoice.payment_failed'' \<in> set failure_kinds"
  "''charge.failed'' \<in> set failure_kinds"
  by (simp_all add: failure_kinds_def)

theorem webhook_acknowledges_failure_event_witness:
  "constructEvent (bounced_env charge_event) (req_body example_request)
     (stripe_signature example_request) (STRIPE_WEBHOOK_SECRET (bounced_env charge_event)) =
     Inr charge_event \<and>
   get_prop charge_event ''type'' = Inr (JStr ''charge.failed'') \<and>
   ''charge.failed'' \<in> set failure_kinds \<and>
   fst (webhook (bounced_env charge_event) example_request init_state) =
     \<lparr>status = 200,
      body = Json (JObj [(''received'', JBool True), (''type'', JStr ''charge.failed'')])\<rparr> \<and>
   get_prop bare_event ''type'' = Inr (JStr ''invoice.payment_failed'') \<and>
   fst (webhook (verified_env bare_event) example_request init_state) =
     \<lparr>status = 200,
      body = Json (JObj [(''received'', JBool True), (''type'', JStr ''invoice.payment_failed'')])\<rparr> \<and>
   recentLogs (snd (webhook (verified_env bare_event) example_request init_state)) ! 0 =
     \<lparr>timestamp = ''2025-01-01T00:00:00.000Z'', level = ''error'',
      message = ''Error processing payment failure event: '' @
                cannot_read ''undefined'' ''object''\<rparr>"
proof -
  have t1: "get_prop charge_event ''type'' = Inr (JStr ''charge.failed'')"
    by (simp add: charge_event_def own_prop_def)
  have t2: "get_prop bare_event ''type'' = Inr (JStr ''invoice.payment_failed'')"
    by (simp add: bare_event_def own_prop_def)
  have thrown: "process_failure (verified_env bare_event) bare_event ''invoice.payment_failed'' s =
      Inl (TypeError (cannot_read ''undefined'' ''object''), s)" for s
    by (simp add: process_failure_def bare_event_def own_prop_def)
  from webhook_acknowledges_failure_event [OF verified_events(2) t1 kinds(3),
      where req = example_request and st = init_state]
  have first: "fst (webhook (bounced_env charge_event) example_request init_state) =
     \<lparr>status = 200,
      body = Json (JObj [(''received'', JBool True), (''type'', JStr ''charge.failed'')])\<rparr>"
    by simp
  from webhook_acknowledges_failure_event [OF verified_events(1) t2 kinds(2),
      where req = example_request and st = init_state]
  have second: "fst (webhook (verified_env bare_event) example_request init_state) =
     \<lparr>status = 200,
      body = Json (JObj [(''received'', JBool True), (''type'', JStr ''invoice.payment_failed'')])\<rparr>"
    and "recentLogs (snd (webhook (verified_env bare_event) example_request init_state)) ! 0 =
     \<lparr>timestamp = ''2025-01-01T00:00:00.000Z'', level = ''error'',
      message = ''Error processing payment failure event: '' @
                cannot_read ''undefined'' ''object''\<rparr>"
    by (simp_all add: thrown newest_log verified_events(4))
  with first t1 t2 kinds(3) verified_events(2) show ?thesis
    by simp
qed



subsection \<open>The bound of the activity log under the handlers\<close>

text \<open>
  The handlers write the activity log through \<^verbatim>\<open>log\<close> only, so they keep its bound: from
  the state in which the module starts, no request leaves more than 100 entries.
\<close>

lemma bounded_log: "bounded st \<Longrightarrow> bounded (log env m l st)"
  by (simp add: bounded_def length_recentLogs_log)

lemma bounded_traces [simp]:
  "bounded (st\<lparr>alerts := a\<rparr>) = bounded st"
  "bounded (st\<lparr>outbox := b\<rparr>) = bounded st"
  "bounded (st\<lparr>lookups := c\<rparr>) = bounded st"
  "bounded (st\<lparr>ticks := n\<rparr>) = bounded st"
  by (simp_all add: bounded_def)

lemma bounded_init: "bounded init_state"
  by (simp add: bounded_def init_state_def)

lemma bounded_sendEmailAlert:
  assumes "bounded st"
  shows "bounded (snd (sendEmailAlert env pd st))"
proof -
  from sendEmailAlert_logs_once [of env pd st] obtain ok m l tr where
    "sendEmailAlert env pd st = (ok, log env m l (st\<lparr>alerts := alerts st @ [pd], outbox := tr\<rparr>))"
    by blast
  with assms show ?thesis
    by (simp add: bounded_log)
qed

lemma bounded_customer_info:
  "bounded st \<Longrightarrow> bounded (snd (customer_info env ref pd st))"
  by (simp add: customer_info_def Let_def bounded_log split: sum.splits)

lemma bounded_process_failure:
  assumes "bounded st"
  shows "bounded (case process_failure env event t st of Inl (e, st') \<Rightarrow> st' | Inr st' \<Rightarrow> st')"
proof (cases "and_then (and_then (get_prop event ''data'') (\<lambda>d. get_prop d ''object''))
             (\<lambda>eventData.
                and_then (paymentData eventData) (\<lambda>pd.
                and_then (get_prop eventData ''customer'') (\<lambda>ref. Inr (pd, ref))))")
  case (Inl e)
  with assms show ?thesis
    by (simp add: process_failure_def)
next
  case (Inr found)
  obtain pd0 ref where found: "found = (pd0, ref)"
    by (cases found)
  obtain pd st1 where cust: "(if truthy ref then customer_info env ref pd0 st else (pd0, st)) = (pd, st1)"
    by (cases "if truthy ref then customer_info env ref pd0 st else (pd0, st)")
  have st1: "bounded st1"
  proof (cases "truthy ref")
    case True
    with cust bounded_customer_info [OF assms, of env ref pd0] show ?thesis
      by simp
  next
    case False
    with cust assms show ?thesis
      by simp
  qed
  show ?thesis
  proof (cases "and_then (to_str env (payment_intent_id pd)) (\<lambda>pid.
                   and_then (to_number env (amount pd)) (\<lambda>a.
                   Inr (''Processing payment failure: '' @ pid @ '', Amount: $'' @
                        toFixed2 env (div100 a))))")
    case (Inl e)
    with Inr found cust st1 show ?thesis
      by (simp add: process_failure_def)
  next
    case line: (Inr line)
    obtain ok st3 where sent: "sendEmailAlert env pd (log env line ''info'' st1) = (ok, st3)"
      by (cases "sendEmailAlert env pd (log env line ''info'' st1)")
    with bounded_sendEmailAlert [OF bounded_log [OF st1], of env pd env line "''info''"]
    have st3: "bounded st3"
      by simp
    from Inr found cust line sent st3 show ?thesis
      by (simp add: process_failure_def bounded_log split: sum.splits)
  qed
qed

lemma bounded_handle_failure:
  assumes "bounded st"
  shows "bounded (handle_failure env event ty st)"
proof (cases ty)
  case (JStr t)
  show ?thesis
  proof (cases "t \<in> set failure_kinds")
    case True
    from bounded_process_failure [OF assms, of env event t] show ?thesis
      by (simp add: JStr handle_failure_kind [OF True] bounded_log split: sum.splits prod.splits)
  next
    case False
    with assms JStr show ?thesis
      by (simp add: handle_failure_def)
  qed
qed (simp_all add: handle_failure_def assms)

lemma bounded_webhook: "bounded st \<Longrightarrow> bounded (snd (webhook env req st))"
  by (simp add: webhook_def bounded_log bounded_handle_failure split: sum.splits)

lemma bounded_health: "bounded st \<Longrightarrow> bounded (snd (health env st))"
  by (simp add: health_def)


end
